theory Spec2Isabelle
  imports Main
begin

section \<open>Data model of the logging middleware\<close>

text \<open>
  The types of \<^verbatim>\<open>types.d.ts\<close>. \<^verbatim>\<open>LogStack\<close>, \<^verbatim>\<open>LogLevel\<close> and \<^verbatim>\<open>LogPackage\<close> are
  unions of string literals; at run time they are plain strings, and \<^verbatim>\<open>logToConsole\<close>
  keeps a \<^verbatim>\<open>default\<close> branch for a level outside the union, so they are strings here.
  Numbers are integers (JavaScript's non-integral and non-finite numbers are left out).
\<close>

record LogEntry =
  stack :: string
  level :: string
  package :: string
  message :: string

text \<open>
  \<^verbatim>\<open>LoggerConfig\<close> as the constructor receives it: the last three properties are
  optional, \<open>None\<close> is a property that is absent.
\<close>

record LoggerConfig =
  arg_apiUrl :: string
  arg_accessToken :: string
  arg_defaultStack :: string
  arg_enableConsoleLog :: "bool option"
  arg_retryAttempts :: "int option"
  arg_retryDelay :: "int option"

text \<open>\<^verbatim>\<open>this.config\<close> after the constructor has spread the argument over the defaults.\<close>

record Config =
  apiUrl :: string
  accessToken :: string
  defaultStack :: string
  enableConsoleLog :: bool
  retryAttempts :: int
  retryDelay :: int

text \<open>The part of an axios instance the class uses: \<^verbatim>\<open>defaults\<close> of \<^verbatim>\<open>axios.create\<close>.\<close>

record AxiosInstance =
  baseURL :: string
  headers :: "string \<rightharpoonup> string"
  timeout :: int

record LoggingMiddleware =
  config :: Config
  apiClient :: AxiosInstance

text \<open>What \<^verbatim>\<open>response.data\<close> can be once axios has parsed the body.\<close>

datatype jsval =
    JUndefined
  | JNull
  | JBool bool
  | JNum int
  | JStr string
  | JObj "(string \<times> jsval) list"

text \<open>JavaScript truthiness, as \<^verbatim>\<open>response.status === 200 && response.data\<close> tests it.\<close>

fun truthy :: "jsval \<Rightarrow> bool" where
  "truthy JUndefined = False"
| "truthy JNull = False"
| "truthy (JBool b) = b"
| "truthy (JNum n) = (n \<noteq> 0)"
| "truthy (JStr s) = (s \<noteq> [])"
| "truthy (JObj kvs) = True"

record response =
  status :: int
  data :: jsval

text \<open>
  The value a \<^verbatim>\<open>catch\<close> receives: \<^verbatim>\<open>axios.isAxiosError(error)\<close>,
  \<^verbatim>\<open>error.response?.status\<close> and \<^verbatim>\<open>error.message\<close>.
\<close>

record js_error =
  isAxiosError :: bool
  response_status :: "int option"
  err_message :: string

text \<open>
  \<^verbatim>\<open>await this.apiClient.post(...)\<close> either yields a response or throws: \<open>Inl\<close> is the
  exception, \<open>Inr\<close> the response. The network is a function from the attempt number
  to what the await of that attempt does.
\<close>

type_synonym post_result = "js_error + response"

type_synonym network = "int \<Rightarrow> post_result"

record request =
  http_method :: string
  req_baseURL :: string
  url :: string
  req_headers :: "string \<rightharpoonup> string"
  body :: LogEntry
  req_timeout :: int

datatype channel = ChDebug | ChInfo | ChWarn | ChError | ChLog

datatype console_arg =
    Text string
  | ErrorObj js_error
  | EntryObj LogEntry
  | Undefined

text \<open>The observable effects of a call, in the order they happen.\<close>

datatype event =
    Console channel "console_arg list"
  | Post request
  | Delay int

section \<open>Strings\<close>

text \<open>Decimal rendering of a number inside a template literal.\<close>

definition digit_char :: "nat \<Rightarrow> char" where
  "digit_char n = ''0123456789'' ! (n mod 10)"

function show_nat :: "nat \<Rightarrow> string" where
  "show_nat n = (if n < 10 then [digit_char n] else show_nat (n div 10) @ [digit_char n])"
  by pat_completeness auto
termination
  by (relation "measure id") auto

declare show_nat.simps [simp del]

definition show_int :: "int \<Rightarrow> string" where
  "show_int i = (if i < 0 then CHR ''-'' # show_nat (nat (- i)) else show_nat (nat i))"

text \<open>
  \<^verbatim>\<open>String.prototype.toUpperCase\<close> on the ASCII letters; every other character is
  kept (the stacks and levels of \<^verbatim>\<open>types.d.ts\<close> are lower-case ASCII words).
\<close>

definition upper_char :: "char \<Rightarrow> char" where
  "upper_char c =
     (case map_of (zip ''abcdefghijklmnopqrstuvwxyz'' ''ABCDEFGHIJKLMNOPQRSTUVWXYZ'') c of
        Some u \<Rightarrow> u
      | None \<Rightarrow> c)"

definition toUpperCase :: "string \<Rightarrow> string" where
  "toUpperCase s = map upper_char s"

section \<open>The class LoggingMiddleware\<close>

subsection \<open>Constructor and factory\<close>

definition axios_create :: "string \<Rightarrow> (string \<rightharpoonup> string) \<Rightarrow> int \<Rightarrow> AxiosInstance" where
  "axios_create b h t = \<lparr>baseURL = b, headers = h, timeout = t\<rparr>"

definition constructor :: "LoggerConfig \<Rightarrow> LoggingMiddleware" where
  "constructor c =
     (let cfg = \<lparr>apiUrl = arg_apiUrl c,
                 accessToken = arg_accessToken c,
                 defaultStack = arg_defaultStack c,
                 enableConsoleLog = (case arg_enableConsoleLog c of None \<Rightarrow> True | Some b \<Rightarrow> b),
                 retryAttempts = (case arg_retryAttempts c of None \<Rightarrow> 3 | Some n \<Rightarrow> n),
                 retryDelay = (case arg_retryDelay c of None \<Rightarrow> 1000 | Some d \<Rightarrow> d)\<rparr>
      in \<lparr>config = cfg,
          apiClient = axios_create (apiUrl cfg)
            [''Content-Type'' \<mapsto> ''application/json'',
             ''Authorization'' \<mapsto> ''Bearer '' @ accessToken cfg]
            10000\<rparr>)"

definition createLogger :: "LoggerConfig \<Rightarrow> LoggingMiddleware" where
  "createLogger c = constructor c"

definition createFrontendLogger :: "string \<Rightarrow> string \<Rightarrow> LoggingMiddleware" where
  "createFrontendLogger u t =
     constructor \<lparr>arg_apiUrl = u, arg_accessToken = t, arg_defaultStack = ''frontend'',
                  arg_enableConsoleLog = Some True, arg_retryAttempts = Some 3,
                  arg_retryDelay = Some 1000\<rparr>"

definition createBackendLogger :: "string \<Rightarrow> string \<Rightarrow> LoggingMiddleware" where
  "createBackendLogger u t =
     constructor \<lparr>arg_apiUrl = u, arg_accessToken = t, arg_defaultStack = ''backend'',
                  arg_enableConsoleLog = Some False, arg_retryAttempts = Some 5,
                  arg_retryDelay = Some 2000\<rparr>"

subsection \<open>logToConsole\<close>

definition logMessage :: "string \<Rightarrow> LogEntry \<Rightarrow> string" where
  "logMessage timestamp logEntry =
     ''['' @ timestamp @ ''] ['' @ toUpperCase (stack logEntry) @ ''] [''
       @ toUpperCase (level logEntry) @ ''] ['' @ package logEntry @ ''] '' @ message logEntry"

text \<open>
  \<open>timestamp\<close> is \<^verbatim>\<open>new Date().toISOString()\<close>, read from the clock by the caller of
  the model.
\<close>

definition logToConsole :: "string \<Rightarrow> LogEntry \<Rightarrow> event list" where
  "logToConsole timestamp logEntry =
     (if level logEntry = ''debug'' then [Console ChDebug [Text (logMessage timestamp logEntry)]]
      else if level logEntry = ''info'' then [Console ChInfo [Text (logMessage timestamp logEntry)]]
      else if level logEntry = ''warn'' then [Console ChWarn [Text (logMessage timestamp logEntry)]]
      else if level logEntry = ''error'' \<or> level logEntry = ''fatal''
        then [Console ChError [Text (logMessage timestamp logEntry)]]
      else [Console ChLog [Text (logMessage timestamp logEntry)]])"

subsection \<open>sendLogToAPI\<close>

text \<open>\<^verbatim>\<open>this.apiClient.post(url, data)\<close>: the request the instance's defaults give.\<close>

definition post_request :: "AxiosInstance \<Rightarrow> string \<Rightarrow> LogEntry \<Rightarrow> request" where
  "post_request c u e =
     \<lparr>http_method = ''POST'', req_baseURL = baseURL c, url = u, req_headers = headers c,
      body = e, req_timeout = timeout c\<rparr>"

text \<open>How an iteration of the \<^verbatim>\<open>for\<close> loop is left for good.\<close>

datatype loop_exit =
    Returned jsval
  | Exited "js_error option"

definition emit :: "event list \<Rightarrow> event list \<times> loop_exit \<Rightarrow> event list \<times> loop_exit" where
  "emit es r = (es @ fst r, snd r)"

definition warn_attempt :: "LoggingMiddleware \<Rightarrow> int \<Rightarrow> js_error \<Rightarrow> event list" where
  "warn_attempt this attempt error =
     (if enableConsoleLog (config this)
      then [Console ChWarn
              [Text (''Log API attempt '' @ show_int attempt @ ''/''
                       @ show_int (retryAttempts (config this)) @ '' failed:''),
               ErrorObj error]]
      else [])"

definition is_auth_failure :: "js_error \<Rightarrow> bool" where
  "is_auth_failure error \<longleftrightarrow>
     isAxiosError error \<and> (response_status error = Some 401 \<or> response_status error = Some 403)"

definition auth_failed :: "LoggingMiddleware \<Rightarrow> event list" where
  "auth_failed this =
     (if enableConsoleLog (config this)
      then [Console ChError [Text ''Authentication failed for logging API. Check your access token.'']]
      else [])"

definition backoff :: "LoggingMiddleware \<Rightarrow> int \<Rightarrow> event list" where
  "backoff this attempt =
     (if attempt < retryAttempts (config this)
      then [Delay (retryDelay (config this) * attempt)]
      else [])"

text \<open>
  The \<^verbatim>\<open>for\<close> loop from the iteration \<open>attempt\<close> on, with the current \<open>lastError\<close>.
  The \<open>Inr\<close> branch is the \<^verbatim>\<open>try\<close> body after the await, the \<open>Inl\<close> branch the
  \<^verbatim>\<open>catch\<close> block.
\<close>

function sendLoop ::
  "LoggingMiddleware \<Rightarrow> network \<Rightarrow> LogEntry \<Rightarrow> int \<Rightarrow> js_error option \<Rightarrow> event list \<times> loop_exit"
where
  "sendLoop this net logEntry attempt lastError =
     (if attempt \<le> retryAttempts (config this) then
        (case net attempt of
           Inr resp \<Rightarrow>
             if status resp = 200 \<and> truthy (data resp)
             then ([Post (post_request (apiClient this) ''/logs'' logEntry)], Returned (data resp))
             else emit [Post (post_request (apiClient this) ''/logs'' logEntry)]
                    (sendLoop this net logEntry (attempt + 1) lastError)
         | Inl error \<Rightarrow>
             if is_auth_failure error
             then ([Post (post_request (apiClient this) ''/logs'' logEntry)]
                     @ warn_attempt this attempt error @ auth_failed this,
                   Exited (Some error))
             else emit ([Post (post_request (apiClient this) ''/logs'' logEntry)]
                          @ warn_attempt this attempt error @ backoff this attempt)
                    (sendLoop this net logEntry (attempt + 1) (Some error)))
      else ([], Exited lastError))"
  by pat_completeness auto
termination
  by (relation "measure (\<lambda>(this, net, logEntry, attempt, lastError).
                   nat (retryAttempts (config this) + 1 - attempt))") auto

declare sendLoop.simps [simp del]

text \<open>\<^verbatim>\<open>lastError?.message\<close>.\<close>

definition lastError_message :: "js_error option \<Rightarrow> console_arg" where
  "lastError_message lastError =
     (case lastError of None \<Rightarrow> Undefined | Some e \<Rightarrow> Text (err_message e))"

definition failure_diagnostic ::
  "LoggingMiddleware \<Rightarrow> js_error option \<Rightarrow> LogEntry \<Rightarrow> event list" where
  "failure_diagnostic this lastError logEntry =
     (if enableConsoleLog (config this)
      then [Console ChError
              [Text ''Failed to send log to API after all retries:'', lastError_message lastError],
            Console ChError [Text ''Original log entry:'', EntryObj logEntry]]
      else [])"

text \<open>
  An \<^verbatim>\<open>async\<close> method returns a promise: \<open>Inl\<close> is a rejection, \<open>Inr\<close> the value it
  resolves to, \<open>None\<close> being \<^verbatim>\<open>null\<close>. The events come first.
\<close>

type_synonym outcome = "event list \<times> (js_error + jsval option)"

definition sendLogToAPI :: "LoggingMiddleware \<Rightarrow> network \<Rightarrow> LogEntry \<Rightarrow> outcome" where
  "sendLogToAPI this net logEntry =
     (case sendLoop this net logEntry 1 None of
        (es, Returned d) \<Rightarrow> (es, Inr (Some d))
      | (es, Exited lastError) \<Rightarrow> (es @ failure_diagnostic this lastError logEntry, Inr None))"

subsection \<open>log and the severity methods\<close>

definition log ::
  "LoggingMiddleware \<Rightarrow> string \<Rightarrow> network \<Rightarrow> string \<Rightarrow> string \<Rightarrow> string \<Rightarrow> string \<Rightarrow> outcome"
where
  "log this timestamp net stack' level' packageName message' =
     (let logEntry = \<lparr>stack = stack', level = level', package = packageName, message = message'\<rparr>;
          echo = (if enableConsoleLog (config this) then logToConsole timestamp logEntry else []);
          sent = sendLogToAPI this net logEntry
      in (echo @ fst sent, snd sent))"

definition debug :: "LoggingMiddleware \<Rightarrow> string \<Rightarrow> network \<Rightarrow> string \<Rightarrow> string \<Rightarrow> outcome" where
  "debug this timestamp net packageName message' =
     log this timestamp net (defaultStack (config this)) ''debug'' packageName message'"

definition info :: "LoggingMiddleware \<Rightarrow> string \<Rightarrow> network \<Rightarrow> string \<Rightarrow> string \<Rightarrow> outcome" where
  "info this timestamp net packageName message' =
     log this timestamp net (defaultStack (config this)) ''info'' packageName message'"

definition warn :: "LoggingMiddleware \<Rightarrow> string \<Rightarrow> network \<Rightarrow> string \<Rightarrow> string \<Rightarrow> outcome" where
  "warn this timestamp net packageName message' =
     log this timestamp net (defaultStack (config this)) ''warn'' packageName message'"

definition error :: "LoggingMiddleware \<Rightarrow> string \<Rightarrow> network \<Rightarrow> string \<Rightarrow> string \<Rightarrow> outcome" where
  "error this timestamp net packageName message' =
     log this timestamp net (defaultStack (config this)) ''error'' packageName message'"

definition fatal :: "LoggingMiddleware \<Rightarrow> string \<Rightarrow> network \<Rightarrow> string \<Rightarrow> string \<Rightarrow> outcome" where
  "fatal this timestamp net packageName message' =
     log this timestamp net (defaultStack (config this)) ''fatal'' packageName message'"

subsection \<open>updateAccessToken and getConfig\<close>

definition updateAccessToken :: "string \<Rightarrow> LoggingMiddleware \<Rightarrow> LoggingMiddleware" where
  "updateAccessToken newToken this =
     this\<lparr>config := (config this)\<lparr>accessToken := newToken\<rparr>,
          apiClient := (apiClient this)
            \<lparr>headers := (headers (apiClient this))(''Authorization'' \<mapsto> ''Bearer '' @ newToken)\<rparr>\<rparr>"

definition getConfig :: "LoggingMiddleware \<Rightarrow> Config" where
  "getConfig this = config this"

subsection \<open>The HTTP client seen from the collector\<close>

text \<open>
  axios is a dependency, not part of the repository. With the defaults the constructor
  leaves in place (\<^verbatim>\<open>validateStatus\<close>: \<^verbatim>\<open>status >= 200 && status < 300\<close>) a response
  outside 2xx makes the await throw an AxiosError that carries the response, a network
  failure or a timeout makes it throw an AxiosError without one, and a 2xx response is
  returned to the \<^verbatim>\<open>try\<close> body.
\<close>

datatype net_outcome =
    HttpResponse int jsval
  | NetworkError
  | TimedOut

fun axios_settle :: "net_outcome \<Rightarrow> post_result" where
  "axios_settle (HttpResponse st d) =
     (if 200 \<le> st \<and> st < 300 then Inr \<lparr>status = st, data = d\<rparr>
      else Inl \<lparr>isAxiosError = True, response_status = Some st,
                err_message = ''Request failed with status code '' @ show_int st\<rparr>)"
| "axios_settle NetworkError =
     Inl \<lparr>isAxiosError = True, response_status = None, err_message = ''Network Error''\<rparr>"
| "axios_settle TimedOut =
     Inl \<lparr>isAxiosError = True, response_status = None,
          err_message = ''timeout of 10000ms exceeded''\<rparr>"

text \<open>A collector answers the attempt \<open>n\<close> of a call; \<open>via_axios\<close> is what the loop awaits.\<close>

definition via_axios :: "(int \<Rightarrow> net_outcome) \<Rightarrow> network" where
  "via_axios collector = (\<lambda>n. axios_settle (collector n))"

subsection \<open>Calls of updateAccessToken during a delivery\<close>

text \<open>
  The methods are \<^verbatim>\<open>async\<close>: while a call of \<open>log\<close> is suspended at an \<^verbatim>\<open>await\<close> (of a
  request or of a delay), the caller may run \<open>updateAccessToken\<close> on the same instance.
  A schedule \<open>upd\<close> gives, for each attempt, the tokens that are set, in order, between
  the dispatch of the request of that attempt and the dispatch of the next one.
  \<^verbatim>\<open>this.apiClient.post\<close> reads the defaults of the instance when it is called, so a
  request is built from the instance as it is at that moment; the instance after the
  awaits of the attempt is the one the scheduled calls have made. After an \<^verbatim>\<open>await\<close> the
  loop reads \<open>enableConsoleLog\<close>, \<open>retryAttempts\<close> and \<open>retryDelay\<close> only, which
  \<open>updateAccessToken\<close> never writes, so it makes no difference to the events at which
  of the two awaits of an attempt an update arrives. The instance at the end of the call
  is returned with the events. \<open>sendLoop\<close>, \<open>sendLogToAPI\<close> and \<open>log\<close> above are these
  functions for a caller that sets no token during the call.
\<close>

definition apply_updates :: "string list \<Rightarrow> LoggingMiddleware \<Rightarrow> LoggingMiddleware" where
  "apply_updates toks this = foldl (\<lambda>t tok. updateAccessToken tok t) this toks"

definition emit_i ::
  "event list \<Rightarrow> event list \<times> loop_exit \<times> LoggingMiddleware
     \<Rightarrow> event list \<times> loop_exit \<times> LoggingMiddleware" where
  "emit_i es r = (es @ fst r, snd r)"

function sendLoop_interleaved ::
  "LoggingMiddleware \<Rightarrow> (int \<Rightarrow> string list) \<Rightarrow> network \<Rightarrow> LogEntry \<Rightarrow> int \<Rightarrow> js_error option
     \<Rightarrow> event list \<times> loop_exit \<times> LoggingMiddleware"
where
  "sendLoop_interleaved this upd net logEntry attempt lastError =
     (if attempt \<le> retryAttempts (config this) then
        (case net attempt of
           Inr resp \<Rightarrow>
             if status resp = 200 \<and> truthy (data resp)
             then ([Post (post_request (apiClient this) ''/logs'' logEntry)],
                   Returned (data resp), apply_updates (upd attempt) this)
             else emit_i [Post (post_request (apiClient this) ''/logs'' logEntry)]
                    (sendLoop_interleaved (apply_updates (upd attempt) this) upd net logEntry
                       (attempt + 1) lastError)
         | Inl err \<Rightarrow>
             if is_auth_failure err
             then ([Post (post_request (apiClient this) ''/logs'' logEntry)]
                     @ warn_attempt (apply_updates (upd attempt) this) attempt err
                     @ auth_failed (apply_updates (upd attempt) this),
                   Exited (Some err), apply_updates (upd attempt) this)
             else emit_i ([Post (post_request (apiClient this) ''/logs'' logEntry)]
                          @ warn_attempt (apply_updates (upd attempt) this) attempt err
                          @ backoff (apply_updates (upd attempt) this) attempt)
                    (sendLoop_interleaved (apply_updates (upd attempt) this) upd net logEntry
                       (attempt + 1) (Some err)))
      else ([], Exited lastError, this))"
  by pat_completeness auto
termination
proof -
  have keep: "retryAttempts (config (foldl (\<lambda>t tok. updateAccessToken tok t) this toks)) =
      retryAttempts (config this)" for toks this
    by (induction toks arbitrary: this) (simp_all add: updateAccessToken_def)
  show ?thesis
    by (relation "measure (\<lambda>(this, upd, net, logEntry, attempt, lastError).
                   nat (retryAttempts (config this) + 1 - attempt))")
      (auto simp add: keep apply_updates_def)
qed

declare sendLoop_interleaved.simps [simp del]


definition sendLogToAPI_interleaved ::
  "LoggingMiddleware \<Rightarrow> (int \<Rightarrow> string list) \<Rightarrow> network \<Rightarrow> LogEntry
     \<Rightarrow> event list \<times> (js_error + jsval option) \<times> LoggingMiddleware" where
  "sendLogToAPI_interleaved this upd net logEntry =
     (case sendLoop_interleaved this upd net logEntry 1 None of
        (es, Returned d, this') \<Rightarrow> (es, Inr (Some d), this')
      | (es, Exited lastError, this') \<Rightarrow>
          (es @ failure_diagnostic this' lastError logEntry, Inr None, this'))"

definition log_interleaved ::
  "LoggingMiddleware \<Rightarrow> string \<Rightarrow> (int \<Rightarrow> string list) \<Rightarrow> network
     \<Rightarrow> string \<Rightarrow> string \<Rightarrow> string \<Rightarrow> string
     \<Rightarrow> event list \<times> (js_error + jsval option) \<times> LoggingMiddleware"
where
  "log_interleaved this timestamp upd net stack' level' packageName message' =
     (let logEntry = \<lparr>stack = stack', level = level', package = packageName, message = message'\<rparr>;
          echo = (if enableConsoleLog (config this) then logToConsole timestamp logEntry else []);
          sent = sendLogToAPI_interleaved this upd net logEntry
      in (echo @ fst sent, snd sent))"

text \<open>
  The instance when the request number \<open>i\<close> (counted from 0) of a loop that starts at
  the attempt \<open>a\<close> is dispatched: the calls scheduled during the \<open>i\<close> attempts before
  it have run.
\<close>

fun instance_after :: "LoggingMiddleware \<Rightarrow> (int \<Rightarrow> string list) \<Rightarrow> int \<Rightarrow> nat \<Rightarrow> LoggingMiddleware"
where
  "instance_after this upd a 0 = this"
| "instance_after this upd a (Suc i) = instance_after (apply_updates (upd a) this) upd (a + 1) i"

subsection \<open>Reading a trace\<close>

fun posts :: "event list \<Rightarrow> request list" where
  "posts [] = []"
| "posts (Post r # es) = r # posts es"
| "posts (Console c a # es) = posts es"
| "posts (Delay d # es) = posts es"

fun delays :: "event list \<Rightarrow> int list" where
  "delays [] = []"
| "delays (Delay d # es) = d # delays es"
| "delays (Console c a # es) = delays es"
| "delays (Post r # es) = delays es"

subsection \<open>Settled promises\<close>

text \<open>
  What a settled call may hand back: \<^verbatim>\<open>null\<close>, or the body of a 200 response that one
  of the attempts \<open>1..retryAttempts\<close> received; never a rejection.
\<close>

definition resolves :: "LoggingMiddleware \<Rightarrow> network \<Rightarrow> outcome \<Rightarrow> bool" where
  "resolves this net r =
     (case snd r of
        Inl e \<Rightarrow> False
      | Inr None \<Rightarrow> True
      | Inr (Some d) \<Rightarrow>
          (\<exists>n\<in>{1..retryAttempts (config this)}. net n = Inr \<lparr>status = 200, data = d\<rparr> \<and> truthy d))"

text \<open>
  \<^verbatim>\<open>LogResponse\<close> of \<^verbatim>\<open>types.d.ts\<close>, the response envelope: an object whose \<^verbatim>\<open>logID\<close>
  and \<^verbatim>\<open>message\<close> are strings.
\<close>

definition is_LogResponse :: "jsval \<Rightarrow> bool" where
  "is_LogResponse d =
     (case d of
        JObj kvs \<Rightarrow>
          (case map_of kvs ''logID'' of
             Some (JStr a) \<Rightarrow>
               (case map_of kvs ''message'' of Some (JStr b) \<Rightarrow> True | _ \<Rightarrow> False)
           | _ \<Rightarrow> False)
      | _ \<Rightarrow> False)"

definition envelope_or_null :: "outcome \<Rightarrow> bool" where
  "envelope_or_null r =
     (case snd r of
        Inl e \<Rightarrow> False
      | Inr None \<Rightarrow> True
      | Inr (Some d) \<Rightarrow> is_LogResponse d)"

text \<open>
  An empty response body reaches the code as the empty string; every other value of
  \<^verbatim>\<open>response.data\<close> was read from a body that is not empty.
\<close>

definition empty_body :: "jsval \<Rightarrow> bool" where
  "empty_body d \<longleftrightarrow> d = JStr []"

section \<open>Basic facts about the loop\<close>

lemma posts_append [simp]: "posts (xs @ ys) = posts xs @ posts ys"
  by (induction xs rule: posts.induct) simp_all

lemma delays_append [simp]: "delays (xs @ ys) = delays xs @ delays ys"
  by (induction xs rule: delays.induct) simp_all

lemma posts_warn_attempt [simp]: "posts (warn_attempt this n e) = []"
  by (simp add: warn_attempt_def)

lemma delays_warn_attempt [simp]: "delays (warn_attempt this n e) = []"
  by (simp add: warn_attempt_def)

lemma posts_auth_failed [simp]: "posts (auth_failed this) = []"
  by (simp add: auth_failed_def)

lemma delays_auth_failed [simp]: "delays (auth_failed this) = []"
  by (simp add: auth_failed_def)

lemma posts_backoff [simp]: "posts (backoff this n) = []"
  by (simp add: backoff_def)

lemma posts_failure_diagnostic [simp]: "posts (failure_diagnostic this le e) = []"
  by (simp add: failure_diagnostic_def)

lemma delays_failure_diagnostic [simp]: "delays (failure_diagnostic this le e) = []"
  by (simp add: failure_diagnostic_def)

lemma posts_logToConsole [simp]: "posts (logToConsole ts e) = []"
  by (simp add: logToConsole_def)

lemma delays_logToConsole [simp]: "delays (logToConsole ts e) = []"
  by (simp add: logToConsole_def)

lemma fst_emit [simp]: "fst (emit es r) = es @ fst r"
  by (simp add: emit_def)

lemma snd_emit [simp]: "snd (emit es r) = snd r"
  by (simp add: emit_def)

lemma sendLoop_past:
  "retryAttempts (config this) < attempt \<Longrightarrow>
   sendLoop this net logEntry attempt lastError = ([], Exited lastError)"
  by (simp add: sendLoop.simps)

lemma sendLoop_success:
  "attempt \<le> retryAttempts (config this) \<Longrightarrow> net attempt = Inr resp \<Longrightarrow>
   status resp = 200 \<Longrightarrow> truthy (data resp) \<Longrightarrow>
   sendLoop this net logEntry attempt lastError =
     ([Post (post_request (apiClient this) ''/logs'' logEntry)], Returned (data resp))"
  by (simp add: sendLoop.simps)

lemma sendLoop_resolved_failure:
  "attempt \<le> retryAttempts (config this) \<Longrightarrow> net attempt = Inr resp \<Longrightarrow>
   \<not> (status resp = 200 \<and> truthy (data resp)) \<Longrightarrow>
   sendLoop this net logEntry attempt lastError =
     emit [Post (post_request (apiClient this) ''/logs'' logEntry)]
       (sendLoop this net logEntry (attempt + 1) lastError)"
  by (subst sendLoop.simps) (simp only: if_True if_False sum.case)

lemma sendLoop_auth:
  "attempt \<le> retryAttempts (config this) \<Longrightarrow> net attempt = Inl err \<Longrightarrow>
   is_auth_failure err \<Longrightarrow>
   sendLoop this net logEntry attempt lastError =
     ([Post (post_request (apiClient this) ''/logs'' logEntry)]
        @ warn_attempt this attempt err @ auth_failed this,
      Exited (Some err))"
  by (simp add: sendLoop.simps)

lemma sendLoop_rejected:
  "attempt \<le> retryAttempts (config this) \<Longrightarrow> net attempt = Inl err \<Longrightarrow>
   \<not> is_auth_failure err \<Longrightarrow>
   sendLoop this net logEntry attempt lastError =
     emit ([Post (post_request (apiClient this) ''/logs'' logEntry)]
             @ warn_attempt this attempt err @ backoff this attempt)
       (sendLoop this net logEntry (attempt + 1) (Some err))"
  by (subst sendLoop.simps) (simp only: if_True if_False sum.case)

text \<open>A \<^verbatim>\<open>return\<close> inside the loop hands back the body of a 200 response of some attempt.\<close>

lemma sendLoop_Returned:
  "snd (sendLoop this net logEntry attempt lastError) = Returned d \<Longrightarrow>
   \<exists>n. attempt \<le> n \<and> n \<le> retryAttempts (config this)
     \<and> net n = Inr \<lparr>status = 200, data = d\<rparr> \<and> truthy d"
proof (induction this net logEntry attempt lastError rule: sendLoop.induct)
  case (1 this net logEntry attempt lastError)
  show ?case
  proof (cases "attempt \<le> retryAttempts (config this)")
    case False
    with "1.prems" show ?thesis by (simp add: sendLoop_past)
  next
    case le: True
    show ?thesis
    proof (cases "net attempt")
      case (Inr resp)
      show ?thesis
      proof (cases "status resp = 200 \<and> truthy (data resp)")
        case True
        with le Inr "1.prems" have "d = data resp"
          by (simp add: sendLoop_success)
        with True Inr le show ?thesis
          by (intro exI [of _ attempt]) simp
      next
        case False
        with le Inr "1.prems"
        have "snd (sendLoop this net logEntry (attempt + 1) lastError) = Returned d"
          by (simp add: sendLoop_resolved_failure)
        from "1.IH"(2) [OF le Inr False this] obtain n where
          "attempt + 1 \<le> n" "n \<le> retryAttempts (config this)"
          "net n = Inr \<lparr>status = 200, data = d\<rparr>" "truthy d"
          by blast
        then show ?thesis
          by (intro exI [of _ n]) simp
      qed
    next
      case (Inl err)
      show ?thesis
      proof (cases "is_auth_failure err")
        case True
        with le Inl "1.prems" show ?thesis by (simp add: sendLoop_auth)
      next
        case False
        with le Inl "1.prems"
        have "snd (sendLoop this net logEntry (attempt + 1) (Some err)) = Returned d"
          by (simp add: sendLoop_rejected)
        from "1.IH"(1) [OF le Inl False this] obtain n where
          "attempt + 1 \<le> n" "n \<le> retryAttempts (config this)"
          "net n = Inr \<lparr>status = 200, data = d\<rparr>" "truthy d"
          by blast
        then show ?thesis
          by (intro exI [of _ n]) simp
      qed
    qed
  qed
qed

lemma sendLoop_Returned_nonempty:
  assumes r: "snd (sendLoop this net logEntry attempt lastError) = Returned d"
  shows "fst (sendLoop this net logEntry attempt lastError) \<noteq> []"
proof (cases "attempt \<le> retryAttempts (config this)")
  case False
  with r show ?thesis by (simp add: sendLoop_past)
next
  case le: True
  show ?thesis
  proof (cases "net attempt")
    case (Inr resp)
    with le show ?thesis
      by (cases "status resp = 200 \<and> truthy (data resp)")
        (simp_all add: sendLoop_success sendLoop_resolved_failure)
  next
    case (Inl err)
    with le show ?thesis
      by (cases "is_auth_failure err") (simp_all add: sendLoop_auth sendLoop_rejected)
  qed
qed

lemma sendLogToAPI_Returned:
  "sendLoop this net logEntry 1 None = (es, Returned d) \<Longrightarrow>
   sendLogToAPI this net logEntry = (es, Inr (Some d))"
  by (simp add: sendLogToAPI_def)

lemma sendLogToAPI_Exited:
  "sendLoop this net logEntry 1 None = (es, Exited le) \<Longrightarrow>
   sendLogToAPI this net logEntry = (es @ failure_diagnostic this le logEntry, Inr None)"
  by (simp add: sendLogToAPI_def)

lemma posts_log:
  "posts (fst (log this ts net s l p m)) =
   posts (fst (sendLogToAPI this net \<lparr>stack = s, level = l, package = p, message = m\<rparr>))"
  by (simp add: log_def Let_def)

lemma delays_log:
  "delays (fst (log this ts net s l p m)) =
   delays (fst (sendLogToAPI this net \<lparr>stack = s, level = l, package = p, message = m\<rparr>))"
  by (simp add: log_def Let_def)

lemma snd_log:
  "snd (log this ts net s l p m) =
   snd (sendLogToAPI this net \<lparr>stack = s, level = l, package = p, message = m\<rparr>)"
  by (simp add: log_def Let_def)

text \<open>Every request of the loop is the one the instance's defaults give for the entry.\<close>

lemma posts_sendLoop:
  "r \<in> set (posts (fst (sendLoop this net logEntry attempt lastError))) \<Longrightarrow>
   r = post_request (apiClient this) ''/logs'' logEntry"
proof (induction this net logEntry attempt lastError rule: sendLoop.induct)
  case (1 this net logEntry attempt lastError)
  show ?case
  proof (cases "attempt \<le> retryAttempts (config this)")
    case False
    with "1.prems" show ?thesis by (simp add: sendLoop_past)
  next
    case le: True
    show ?thesis
    proof (cases "net attempt")
      case (Inr resp)
      show ?thesis
      proof (cases "status resp = 200 \<and> truthy (data resp)")
        case True
        with le Inr "1.prems" show ?thesis
          by (simp add: sendLoop_success)
      next
        case False
        from "1.prems" sendLoop_resolved_failure [of attempt this net resp logEntry lastError]
          le Inr False
        have "r = post_request (apiClient this) ''/logs'' logEntry
          \<or> r \<in> set (posts (fst (sendLoop this net logEntry (attempt + 1) lastError)))"
          by auto
        with "1.IH"(2) [OF le Inr False] show ?thesis by blast
      qed
    next
      case (Inl err)
      show ?thesis
      proof (cases "is_auth_failure err")
        case True
        with le Inl "1.prems" show ?thesis
          by (simp add: sendLoop_auth)
      next
        case False
        from "1.prems" sendLoop_rejected [of attempt this net err logEntry lastError]
          le Inl False
        have "r = post_request (apiClient this) ''/logs'' logEntry
          \<or> r \<in> set (posts (fst (sendLoop this net logEntry (attempt + 1) (Some err))))"
          by auto
        with "1.IH"(1) [OF le Inl False] show ?thesis by blast
      qed
    qed
  qed
qed

lemma posts_sendLogToAPI:
  "r \<in> set (posts (fst (sendLogToAPI this net logEntry))) \<Longrightarrow>
   r = post_request (apiClient this) ''/logs'' logEntry"
proof (cases "sendLoop this net logEntry 1 None")
  case (Pair es ex)
  assume r: "r \<in> set (posts (fst (sendLogToAPI this net logEntry)))"
  have "posts (fst (sendLogToAPI this net logEntry)) = posts es"
    using Pair by (cases ex) (simp_all add: sendLogToAPI_def)
  with r Pair posts_sendLoop [of r this net logEntry 1 None] show ?thesis
    by simp
qed

lemma posts_log_request:
  "r \<in> set (posts (fst (log this ts net s l p m))) \<Longrightarrow>
   r = post_request (apiClient this) ''/logs''
         \<lparr>stack = s, level = l, package = p, message = m\<rparr>"
  by (simp add: posts_log posts_sendLogToAPI)

text \<open>
  No console line of the delivery is a single text that starts with a bracket, as the
  echo line does.
\<close>

lemma echo_not_in_sendLoop:
  "Console c [Text (CHR ''['' # t)] \<notin> set (fst (sendLoop this net logEntry attempt lastError))"
proof (induction this net logEntry attempt lastError rule: sendLoop.induct)
  case (1 this net logEntry attempt lastError)
  show ?case
  proof (cases "attempt \<le> retryAttempts (config this)")
    case False
    then show ?thesis by (simp add: sendLoop_past)
  next
    case le: True
    show ?thesis
    proof (cases "net attempt")
      case (Inr resp)
      show ?thesis
      proof (cases "status resp = 200 \<and> truthy (data resp)")
        case True
        with le Inr show ?thesis
          by (simp add: sendLoop_success)
      next
        case False
        from "1.IH"(2) [OF le Inr False]
          sendLoop_resolved_failure [of attempt this net resp logEntry lastError] le Inr False
        show ?thesis by simp
      qed
    next
      case (Inl err)
      show ?thesis
      proof (cases "is_auth_failure err")
        case True
        with le Inl show ?thesis
          by (simp add: sendLoop_auth warn_attempt_def auth_failed_def)
      next
        case False
        from "1.IH"(1) [OF le Inl False]
          sendLoop_rejected [of attempt this net err logEntry lastError] le Inl False
        show ?thesis by (simp add: warn_attempt_def backoff_def)
      qed
    qed
  qed
qed

lemma echo_not_in_sendLogToAPI:
  "Console c [Text (CHR ''['' # t)] \<notin> set (fst (sendLogToAPI this net logEntry))"
proof (cases "sendLoop this net logEntry 1 None")
  case (Pair es ex)
  with echo_not_in_sendLoop [of c t this net logEntry 1 None]
  have "Console c [Text (CHR ''['' # t)] \<notin> set es"
    by simp
  with Pair show ?thesis
    by (cases ex) (simp_all add: sendLogToAPI_def failure_diagnostic_def)
qed

lemma count_list_head: "x \<notin> set xs \<Longrightarrow> count_list (x # xs) x = 1"
  by (simp add: count_list_0_iff)

section \<open>The promise of log always resolves\<close>

lemma sendLogToAPI_resolves: "resolves this net (sendLogToAPI this net logEntry)"
proof (cases "sendLoop this net logEntry 1 None")
  case (Pair es ex)
  show ?thesis
  proof (cases ex)
    case (Returned d)
    with Pair have "snd (sendLoop this net logEntry 1 None) = Returned d"
      by simp
    from sendLoop_Returned [OF this] obtain n where
      "1 \<le> n" "n \<le> retryAttempts (config this)"
      "net n = Inr \<lparr>status = 200, data = d\<rparr>" "truthy d"
      by blast
    then have "\<exists>n\<in>{1..retryAttempts (config this)}. net n = Inr \<lparr>status = 200, data = d\<rparr> \<and> truthy d"
      by (intro bexI [of _ n]) simp_all
    with Pair Returned show ?thesis
      by (simp add: resolves_def sendLogToAPI_def)
  next
    case (Exited le)
    with Pair show ?thesis
      by (simp add: resolves_def sendLogToAPI_def)
  qed
qed

lemma log_resolves: "resolves this net (log this ts net s l p m)"
  using sendLogToAPI_resolves
    [of this net "\<lparr>stack = s, level = l, package = p, message = m\<rparr>"]
  by (simp add: resolves_def log_def Let_def)

lemma log_envelope:
  assumes "\<forall>n d. net n = Inr \<lparr>status = 200, data = d\<rparr> \<and> truthy d \<longrightarrow> is_LogResponse d"
  shows "envelope_or_null (log this ts net s l p m)"
proof -
  from log_resolves [of this net ts s l p m] assms show ?thesis
    by (auto simp add: resolves_def envelope_or_null_def split: sum.splits option.splits)
qed

text \<open>
  C1. For every instance, every argument of \<open>log\<close> or of a severity method and every
  behaviour of the network, the call ends and its promise is never rejected: it
  resolves to \<^verbatim>\<open>null\<close> or to the truthy \<^verbatim>\<open>response.data\<close> of a 200 response that one of
  the attempts received, handed back as it came. That value is a response envelope
  whenever every truthy 200 body the network delivers is one; the code does not check
  the shape of the body.
\<close>

theorem log_never_rejects:
  "resolves this net (log this ts net s l p m)
   \<and> resolves this net (debug this ts net p m)
   \<and> resolves this net (info this ts net p m)
   \<and> resolves this net (warn this ts net p m)
   \<and> resolves this net (error this ts net p m)
   \<and> resolves this net (fatal this ts net p m)
   \<and> ((\<forall>n d. net n = Inr \<lparr>status = 200, data = d\<rparr> \<and> truthy d \<longrightarrow> is_LogResponse d) \<longrightarrow>
        envelope_or_null (log this ts net s l p m)
        \<and> envelope_or_null (debug this ts net p m)
        \<and> envelope_or_null (info this ts net p m)
        \<and> envelope_or_null (warn this ts net p m)
        \<and> envelope_or_null (error this ts net p m)
        \<and> envelope_or_null (fatal this ts net p m))"
  by (simp add: log_resolves log_envelope debug_def info_def warn_def error_def fatal_def)

theorem log_never_rejects_witness:
  "is_LogResponse (JObj [(''logID'', JStr ''a1''), (''message'', JStr ''log created'')])
   \<and> snd (info (createFrontendLogger ''http://collector'' ''tok'')
        ''2024-01-01T00:00:00.000Z''
        (via_axios (\<lambda>n. if n = 1 then NetworkError else HttpResponse 200
           (JObj [(''logID'', JStr ''a1''), (''message'', JStr ''log created'')])))
        ''api'' ''hello'') =
      Inr (Some (JObj [(''logID'', JStr ''a1''), (''message'', JStr ''log created'')]))
   \<and> envelope_or_null (info (createFrontendLogger ''http://collector'' ''tok'')
        ''2024-01-01T00:00:00.000Z''
        (via_axios (\<lambda>n. if n = 1 then NetworkError else HttpResponse 200
           (JObj [(''logID'', JStr ''a1''), (''message'', JStr ''log created'')])))
        ''api'' ''hello'')
   \<and> snd (error (createFrontendLogger ''http://collector'' ''tok'')
        ''2024-01-01T00:00:00.000Z'' (via_axios (\<lambda>n. TimedOut)) ''api'' ''hello'') = Inr None"
  using log_never_rejects
    [where this = "createFrontendLogger ''http://collector'' ''tok''"
       and ts = "''2024-01-01T00:00:00.000Z''"
       and net = "via_axios (\<lambda>n. if n = 1 then NetworkError else HttpResponse 200
           (JObj [(''logID'', JStr ''a1''), (''message'', JStr ''log created'')]))"
       and s = "''frontend''" and l = "''info''" and p = "''api''" and m = "''hello''"]
    log_never_rejects
    [where this = "createFrontendLogger ''http://collector'' ''tok''"
       and ts = "''2024-01-01T00:00:00.000Z''"
       and net = "via_axios (\<lambda>n. TimedOut)"
       and s = "''frontend''" and l = "''info''" and p = "''api''" and m = "''hello''"]
  by (simp add: createFrontendLogger_def constructor_def Let_def info_def error_def log_def
      sendLogToAPI_def sendLoop.simps via_axios_def is_auth_failure_def emit_def
      is_LogResponse_def envelope_or_null_def)

text \<open>
  A 200 response whose body is not JSON reaches the code as a string; \<open>log\<close> resolves to
  that string, which is neither an envelope nor \<^verbatim>\<open>null\<close>.
\<close>

theorem log_resolves_to_raw_body:
  "snd (log (createFrontendLogger ''http://collector'' ''tok'')
        ''2024-01-01T00:00:00.000Z''
        (via_axios (\<lambda>n. HttpResponse 200 (JStr ''not json'')))
        ''frontend'' ''info'' ''api'' ''hello'') = Inr (Some (JStr ''not json''))
   \<and> \<not> is_LogResponse (JStr ''not json'')
   \<and> \<not> envelope_or_null (log (createFrontendLogger ''http://collector'' ''tok'')
        ''2024-01-01T00:00:00.000Z''
        (via_axios (\<lambda>n. HttpResponse 200 (JStr ''not json'')))
        ''frontend'' ''info'' ''api'' ''hello'')"
  by (simp add: createFrontendLogger_def constructor_def Let_def log_def
      sendLogToAPI_def sendLoop.simps via_axios_def is_LogResponse_def envelope_or_null_def)

section \<open>A non-positive number of attempts\<close>

lemma sendLogToAPI_no_attempt:
  "retryAttempts (config this) \<le> 0 \<Longrightarrow>
   sendLogToAPI this net logEntry = (failure_diagnostic this None logEntry, Inr None)"
  by (simp add: sendLogToAPI_def sendLoop_past)

lemma retryAttempts_constructor:
  "arg_retryAttempts c = Some n \<Longrightarrow> retryAttempts (config (constructor c)) = n"
  by (simp add: constructor_def Let_def)

text \<open>
  C10. The constructor stores any integer \<open>retryAttempts\<close> it is given. When that
  number is at most 0, \<open>log\<close> issues no request and resolves to \<^verbatim>\<open>null\<close>; with the
  console enabled it still writes the echo line and then the two lines of the failure
  diagnostic (the error message being \<^verbatim>\<open>undefined\<close>), and with the console disabled
  it writes nothing.
\<close>

theorem log_without_attempts:
  assumes "arg_retryAttempts c = Some n" and "n \<le> 0"
  shows "retryAttempts (config (constructor c)) = n
    \<and> posts (fst (log (constructor c) ts net s l p m)) = []
    \<and> snd (log (constructor c) ts net s l p m) = Inr None
    \<and> fst (log (constructor c) ts net s l p m) =
        (if enableConsoleLog (config (constructor c))
         then logToConsole ts \<lparr>stack = s, level = l, package = p, message = m\<rparr>
              @ [Console ChError
                   [Text ''Failed to send log to API after all retries:'', Undefined],
                 Console ChError
                   [Text ''Original log entry:'',
                    EntryObj \<lparr>stack = s, level = l, package = p, message = m\<rparr>]]
         else [])"
proof -
  let ?L = "constructor c"
  from assms have n: "retryAttempts (config ?L) \<le> 0"
    by (simp add: retryAttempts_constructor)
  show ?thesis
    using assms(1)
    by (simp add: retryAttempts_constructor log_def Let_def sendLogToAPI_no_attempt [OF n]
        failure_diagnostic_def lastError_message_def)
qed

theorem log_without_attempts_witness:
  "arg_retryAttempts
     \<lparr>arg_apiUrl = ''http://collector'', arg_accessToken = ''tok'',
      arg_defaultStack = ''frontend'', arg_enableConsoleLog = None,
      arg_retryAttempts = Some 0, arg_retryDelay = None\<rparr> = Some 0
   \<and> (0::int) \<le> 0
   \<and> fst (log (constructor
        \<lparr>arg_apiUrl = ''http://collector'', arg_accessToken = ''tok'',
         arg_defaultStack = ''frontend'', arg_enableConsoleLog = None,
         arg_retryAttempts = Some 0, arg_retryDelay = None\<rparr>)
        ''2024-01-01T00:00:00.000Z''
        (\<lambda>n. Inr \<lparr>status = 200, data = JStr ''ok''\<rparr>)
        ''frontend'' ''info'' ''api'' ''hello'') =
      [Console ChInfo [Text ''[2024-01-01T00:00:00.000Z] [FRONTEND] [INFO] [api] hello''],
       Console ChError [Text ''Failed to send log to API after all retries:'', Undefined],
       Console ChError
         [Text ''Original log entry:'',
          EntryObj \<lparr>stack = ''frontend'', level = ''info'', package = ''api'',
                    message = ''hello''\<rparr>]]
   \<and> snd (log (constructor
        \<lparr>arg_apiUrl = ''http://collector'', arg_accessToken = ''tok'',
         arg_defaultStack = ''frontend'', arg_enableConsoleLog = None,
         arg_retryAttempts = Some 0, arg_retryDelay = None\<rparr>)
        ''2024-01-01T00:00:00.000Z''
        (\<lambda>n. Inr \<lparr>status = 200, data = JStr ''ok''\<rparr>)
        ''frontend'' ''info'' ''api'' ''hello'') = Inr None"
  using log_without_attempts
    [of "\<lparr>arg_apiUrl = ''http://collector'', arg_accessToken = ''tok'',
         arg_defaultStack = ''frontend'', arg_enableConsoleLog = None,
         arg_retryAttempts = Some 0, arg_retryDelay = None\<rparr>" 0
        "''2024-01-01T00:00:00.000Z''" "\<lambda>n. Inr \<lparr>status = 200, data = JStr ''ok''\<rparr>"
        "''frontend''" "''info''" "''api''" "''hello''"]
  by (simp add: constructor_def Let_def logToConsole_def logMessage_def toUpperCase_def
      upper_char_def)

section \<open>Success of an attempt\<close>

lemma truthy_iff:
  "truthy d \<longleftrightarrow> d \<noteq> JUndefined \<and> d \<noteq> JNull \<and> d \<noteq> JBool False \<and> d \<noteq> JNum 0 \<and> d \<noteq> JStr []"
  by (cases d) auto

text \<open>
  C4. An attempt inside the bound ends the loop with a \<^verbatim>\<open>return\<close> of \<open>d\<close>, after its
  one request, exactly when its response has status 200 and a body \<open>d\<close> that is truthy
  in the sense of JavaScript: anything but \<^verbatim>\<open>undefined\<close>, \<^verbatim>\<open>null\<close>, \<^verbatim>\<open>false\<close>, 0 and
  the empty string. An empty body is never a success. With a collector that always
  answers 200 with a truthy body and at least one attempt allowed, \<open>log\<close> issues one
  request, waits never and resolves to the body.
\<close>

theorem success_iff_200_with_body:
  "(attempt \<le> retryAttempts (config this) \<longrightarrow>
      (sendLoop this net logEntry attempt lastError =
         ([Post (post_request (apiClient this) ''/logs'' logEntry)], Returned d)
       \<longleftrightarrow> net attempt = Inr \<lparr>status = 200, data = d\<rparr> \<and> truthy d))
   \<and> (1 \<le> retryAttempts (config this) \<and> truthy b \<longrightarrow>
        posts (fst (log this ts (via_axios (\<lambda>n. HttpResponse 200 b)) s l p m)) =
          [post_request (apiClient this) ''/logs''
             \<lparr>stack = s, level = l, package = p, message = m\<rparr>]
        \<and> delays (fst (log this ts (via_axios (\<lambda>n. HttpResponse 200 b)) s l p m)) = []
        \<and> snd (log this ts (via_axios (\<lambda>n. HttpResponse 200 b)) s l p m) = Inr (Some b))
   \<and> (truthy d \<longleftrightarrow>
        d \<noteq> JUndefined \<and> d \<noteq> JNull \<and> d \<noteq> JBool False \<and> d \<noteq> JNum 0 \<and> d \<noteq> JStr [])
   \<and> \<not> (empty_body d \<and> truthy d)"
proof (intro conjI impI)
  assume le: "attempt \<le> retryAttempts (config this)"
  let ?rq = "Post (post_request (apiClient this) ''/logs'' logEntry)"
  show "sendLoop this net logEntry attempt lastError = ([?rq], Returned d)
        \<longleftrightarrow> net attempt = Inr \<lparr>status = 200, data = d\<rparr> \<and> truthy d"
  proof
    assume "net attempt = Inr \<lparr>status = 200, data = d\<rparr> \<and> truthy d"
    with le show "sendLoop this net logEntry attempt lastError = ([?rq], Returned d)"
      using sendLoop_success [of attempt this net "\<lparr>status = 200, data = d\<rparr>" logEntry lastError]
      by simp
  next
    assume run: "sendLoop this net logEntry attempt lastError = ([?rq], Returned d)"
    show "net attempt = Inr \<lparr>status = 200, data = d\<rparr> \<and> truthy d"
    proof (cases "net attempt")
      case (Inr resp)
      show ?thesis
      proof (cases "status resp = 200 \<and> truthy (data resp)")
        case True
        with le Inr run have "data resp = d"
          by (simp add: sendLoop_success)
        with True Inr show ?thesis by simp
      next
        case False
        from sendLoop_resolved_failure [of attempt this net resp logEntry lastError]
          le Inr False run
        have "fst (sendLoop this net logEntry (attempt + 1) lastError) = []"
          and "snd (sendLoop this net logEntry (attempt + 1) lastError) = Returned d"
          by (simp_all add: emit_def)
        with sendLoop_Returned_nonempty show ?thesis by blast
      qed
    next
      case (Inl err)
      show ?thesis
      proof (cases "is_auth_failure err")
        case True
        from sendLoop_auth [of attempt this net err logEntry lastError] le Inl True run
        show ?thesis
          by simp
      next
        case False
        from sendLoop_rejected [of attempt this net err logEntry lastError]
          le Inl False run
        have "fst (sendLoop this net logEntry (attempt + 1) (Some err)) = []"
          and "snd (sendLoop this net logEntry (attempt + 1) (Some err)) = Returned d"
          by (simp_all add: emit_def)
        with sendLoop_Returned_nonempty show ?thesis by blast
      qed
    qed
  qed
next
  assume a: "1 \<le> retryAttempts (config this) \<and> truthy b"
  let ?net = "via_axios (\<lambda>n. HttpResponse 200 b)"
  let ?e = "\<lparr>stack = s, level = l, package = p, message = m\<rparr>"
  have net: "?net 1 = Inr \<lparr>status = 200, data = b\<rparr>"
    by (simp add: via_axios_def)
  from a have "sendLoop this ?net ?e 1 None =
      ([Post (post_request (apiClient this) ''/logs'' ?e)], Returned b)"
    using sendLoop_success [of 1 this ?net "\<lparr>status = 200, data = b\<rparr>" ?e None] net
    by simp
  then have sent: "sendLogToAPI this ?net ?e =
      ([Post (post_request (apiClient this) ''/logs'' ?e)], Inr (Some b))"
    by (rule sendLogToAPI_Returned)
  show "posts (fst (log this ts ?net s l p m)) = [post_request (apiClient this) ''/logs'' ?e]"
    by (simp add: posts_log sent)
  show "delays (fst (log this ts ?net s l p m)) = []"
    by (simp add: delays_log sent)
  show "snd (log this ts ?net s l p m) = Inr (Some b)"
    by (simp add: snd_log sent)
next
  show "truthy d \<longleftrightarrow>
      d \<noteq> JUndefined \<and> d \<noteq> JNull \<and> d \<noteq> JBool False \<and> d \<noteq> JNum 0 \<and> d \<noteq> JStr []"
    by (rule truthy_iff)
next
  show "\<not> (empty_body d \<and> truthy d)"
    by (auto simp add: empty_body_def)
qed

theorem success_iff_200_with_body_witness:
  "(1::int) \<le> retryAttempts (config (createFrontendLogger ''http://collector'' ''tok''))
   \<and> truthy (JObj [(''logID'', JStr ''a1''), (''message'', JStr ''log created'')])
   \<and> sendLoop (createFrontendLogger ''http://collector'' ''tok'')
         (via_axios (\<lambda>n. HttpResponse 200
            (JObj [(''logID'', JStr ''a1''), (''message'', JStr ''log created'')])))
         \<lparr>stack = ''frontend'', level = ''info'', package = ''api'', message = ''hello''\<rparr>
         1 None =
       ([Post \<lparr>http_method = ''POST'', req_baseURL = ''http://collector'', url = ''/logs'',
               req_headers = [''Content-Type'' \<mapsto> ''application/json'',
                              ''Authorization'' \<mapsto> ''Bearer tok''],
               body = \<lparr>stack = ''frontend'', level = ''info'', package = ''api'',
                        message = ''hello''\<rparr>,
               req_timeout = 10000\<rparr>],
        Returned (JObj [(''logID'', JStr ''a1''), (''message'', JStr ''log created'')]))
   \<and> delays (fst (log (createFrontendLogger ''http://collector'' ''tok'')
         ''2024-01-01T00:00:00.000Z''
         (via_axios (\<lambda>n. HttpResponse 200
            (JObj [(''logID'', JStr ''a1''), (''message'', JStr ''log created'')])))
         ''frontend'' ''info'' ''api'' ''hello'')) = []
   \<and> snd (log (createFrontendLogger ''http://collector'' ''tok'')
         ''2024-01-01T00:00:00.000Z''
         (via_axios (\<lambda>n. HttpResponse 200
            (JObj [(''logID'', JStr ''a1''), (''message'', JStr ''log created'')])))
         ''frontend'' ''info'' ''api'' ''hello'') =
       Inr (Some (JObj [(''logID'', JStr ''a1''), (''message'', JStr ''log created'')]))"
  using success_iff_200_with_body
    [where attempt = 1
       and this = "createFrontendLogger ''http://collector'' ''tok''"
       and net = "via_axios (\<lambda>n. HttpResponse 200
            (JObj [(''logID'', JStr ''a1''), (''message'', JStr ''log created'')]))"
       and logEntry = "\<lparr>stack = ''frontend'', level = ''info'', package = ''api'',
            message = ''hello''\<rparr>"
       and lastError = None
       and d = "JObj [(''logID'', JStr ''a1''), (''message'', JStr ''log created'')]"
       and b = "JObj [(''logID'', JStr ''a1''), (''message'', JStr ''log created'')]"
       and ts = "''2024-01-01T00:00:00.000Z''"
       and s = "''frontend''" and l = "''info''" and p = "''api''" and m = "''hello''"]
  by (simp add: createFrontendLogger_def constructor_def Let_def via_axios_def
      post_request_def axios_create_def)

text \<open>
  A 200 response whose body is the JSON text \<^verbatim>\<open>0\<close> has a body that is not empty, and
  yet the attempt is no success: the frontend profile posts three times and gives up.
\<close>

theorem nonempty_200_body_not_success:
  "\<not> empty_body (JNum 0)
   \<and> via_axios (\<lambda>n. HttpResponse 200 (JNum 0)) 1 = Inr \<lparr>status = 200, data = JNum 0\<rparr>
   \<and> posts (fst (sendLoop (createFrontendLogger ''http://collector'' ''tok'')
        (via_axios (\<lambda>n. HttpResponse 200 (JNum 0)))
        \<lparr>stack = ''frontend'', level = ''info'', package = ''api'', message = ''hello''\<rparr>
        1 None)) =
      replicate 3 \<lparr>http_method = ''POST'', req_baseURL = ''http://collector'', url = ''/logs'',
         req_headers = [''Content-Type'' \<mapsto> ''application/json'',
                        ''Authorization'' \<mapsto> ''Bearer tok''],
         body = \<lparr>stack = ''frontend'', level = ''info'', package = ''api'',
                  message = ''hello''\<rparr>,
         req_timeout = 10000\<rparr>
   \<and> snd (sendLoop (createFrontendLogger ''http://collector'' ''tok'')
        (via_axios (\<lambda>n. HttpResponse 200 (JNum 0)))
        \<lparr>stack = ''frontend'', level = ''info'', package = ''api'', message = ''hello''\<rparr>
        1 None) = Exited None
   \<and> snd (log (createFrontendLogger ''http://collector'' ''tok'')
        ''2024-01-01T00:00:00.000Z''
        (via_axios (\<lambda>n. HttpResponse 200 (JNum 0)))
        ''frontend'' ''info'' ''api'' ''hello'') = Inr None"
  by (simp add: createFrontendLogger_def constructor_def Let_def log_def
      sendLogToAPI_def sendLoop.simps via_axios_def emit_def empty_body_def
      post_request_def axios_create_def numeral_3_eq_3)

section \<open>Authentication failures\<close>

text \<open>
  C3. When the await of an attempt inside the bound throws an axios error whose
  response has status 401 or 403, the loop is left at once: this request is the last,
  no wait follows and no further attempt is made. With a collector that always answers
  401 (or always 403) and at least one attempt allowed, \<open>log\<close> issues exactly one request,
  waits never and resolves to \<^verbatim>\<open>null\<close>.
\<close>

theorem auth_failure_aborts:
  "(attempt \<le> retryAttempts (config this) \<and> net attempt = Inl err \<and> isAxiosError err
      \<and> (response_status err = Some 401 \<or> response_status err = Some 403) \<longrightarrow>
        posts (fst (sendLoop this net logEntry attempt lastError)) =
          [post_request (apiClient this) ''/logs'' logEntry]
        \<and> delays (fst (sendLoop this net logEntry attempt lastError)) = []
        \<and> snd (sendLoop this net logEntry attempt lastError) = Exited (Some err))
   \<and> (1 \<le> retryAttempts (config this) \<and> (st = 401 \<or> st = 403) \<longrightarrow>
        posts (fst (log this ts (via_axios (\<lambda>n. HttpResponse st b)) s l p m)) =
          [post_request (apiClient this) ''/logs''
             \<lparr>stack = s, level = l, package = p, message = m\<rparr>]
        \<and> delays (fst (log this ts (via_axios (\<lambda>n. HttpResponse st b)) s l p m)) = []
        \<and> snd (log this ts (via_axios (\<lambda>n. HttpResponse st b)) s l p m) = Inr None)"
proof (intro conjI impI)
  assume a: "attempt \<le> retryAttempts (config this) \<and> net attempt = Inl err
    \<and> isAxiosError err \<and> (response_status err = Some 401 \<or> response_status err = Some 403)"
  then have "is_auth_failure err"
    by (simp add: is_auth_failure_def)
  with a have run: "sendLoop this net logEntry attempt lastError =
     ([Post (post_request (apiClient this) ''/logs'' logEntry)]
        @ warn_attempt this attempt err @ auth_failed this, Exited (Some err))"
    using sendLoop_auth [of attempt this net err logEntry lastError] by simp
  show "posts (fst (sendLoop this net logEntry attempt lastError)) =
          [post_request (apiClient this) ''/logs'' logEntry]"
    by (simp add: run)
  show "delays (fst (sendLoop this net logEntry attempt lastError)) = []"
    by (simp add: run)
  show "snd (sendLoop this net logEntry attempt lastError) = Exited (Some err)"
    by (simp add: run)
next
  assume a: "1 \<le> retryAttempts (config this) \<and> (st = 401 \<or> st = 403)"
  let ?net = "via_axios (\<lambda>n. HttpResponse st b)"
  let ?e = "\<lparr>stack = s, level = l, package = p, message = m\<rparr>"
  let ?err = "\<lparr>isAxiosError = True, response_status = Some st,
               err_message = ''Request failed with status code '' @ show_int st\<rparr>"
  from a have net: "?net 1 = Inl ?err"
    by (auto simp add: via_axios_def)
  from a have "is_auth_failure ?err"
    by (auto simp add: is_auth_failure_def)
  with a net have "sendLoop this ?net ?e 1 None =
     ([Post (post_request (apiClient this) ''/logs'' ?e)]
        @ warn_attempt this 1 ?err @ auth_failed this, Exited (Some ?err))"
    using sendLoop_auth [of 1 this ?net ?err ?e None] by simp
  then have sent: "sendLogToAPI this ?net ?e =
     (([Post (post_request (apiClient this) ''/logs'' ?e)]
        @ warn_attempt this 1 ?err @ auth_failed this)
        @ failure_diagnostic this (Some ?err) ?e, Inr None)"
    by (rule sendLogToAPI_Exited)
  show "posts (fst (log this ts ?net s l p m)) = [post_request (apiClient this) ''/logs'' ?e]"
    by (simp add: posts_log sent)
  show "delays (fst (log this ts ?net s l p m)) = []"
    by (simp add: delays_log sent)
  show "snd (log this ts ?net s l p m) = Inr None"
    by (simp add: snd_log sent)
qed

theorem auth_failure_aborts_witness:
  "(1::int) \<le> retryAttempts (config (createBackendLogger ''http://collector'' ''tok''))
   \<and> via_axios (\<lambda>n. HttpResponse 401 (JStr ''Unauthorized'')) 1 =
       Inl \<lparr>isAxiosError = True, response_status = Some 401,
            err_message = ''Request failed with status code '' @ show_int 401\<rparr>
   \<and> fst (sendLoop (createBackendLogger ''http://collector'' ''tok'')
         (via_axios (\<lambda>n. HttpResponse 401 (JStr ''Unauthorized'')))
         \<lparr>stack = ''backend'', level = ''error'', package = ''db'', message = ''down''\<rparr>
         1 None) =
       [Post \<lparr>http_method = ''POST'', req_baseURL = ''http://collector'', url = ''/logs'',
               req_headers = [''Content-Type'' \<mapsto> ''application/json'',
                              ''Authorization'' \<mapsto> ''Bearer tok''],
               body = \<lparr>stack = ''backend'', level = ''error'', package = ''db'',
                        message = ''down''\<rparr>,
               req_timeout = 10000\<rparr>]
   \<and> posts (fst (log (createBackendLogger ''http://collector'' ''tok'')
         ''2024-01-01T00:00:00.000Z''
         (via_axios (\<lambda>n. HttpResponse 401 (JStr ''Unauthorized'')))
         ''backend'' ''error'' ''db'' ''down'')) =
       [\<lparr>http_method = ''POST'', req_baseURL = ''http://collector'', url = ''/logs'',
          req_headers = [''Content-Type'' \<mapsto> ''application/json'',
                         ''Authorization'' \<mapsto> ''Bearer tok''],
          body = \<lparr>stack = ''backend'', level = ''error'', package = ''db'',
                   message = ''down''\<rparr>,
          req_timeout = 10000\<rparr>]
   \<and> delays (fst (log (createBackendLogger ''http://collector'' ''tok'')
         ''2024-01-01T00:00:00.000Z''
         (via_axios (\<lambda>n. HttpResponse 401 (JStr ''Unauthorized'')))
         ''backend'' ''error'' ''db'' ''down'')) = []
   \<and> snd (log (createBackendLogger ''http://collector'' ''tok'')
         ''2024-01-01T00:00:00.000Z''
         (via_axios (\<lambda>n. HttpResponse 401 (JStr ''Unauthorized'')))
         ''backend'' ''error'' ''db'' ''down'') = Inr None"
  using auth_failure_aborts
    [where attempt = 1
       and this = "createBackendLogger ''http://collector'' ''tok''"
       and net = "via_axios (\<lambda>n. HttpResponse 401 (JStr ''Unauthorized''))"
       and err = "\<lparr>isAxiosError = True, response_status = Some 401,
            err_message = ''Request failed with status code '' @ show_int 401\<rparr>"
       and logEntry = "\<lparr>stack = ''backend'', level = ''error'', package = ''db'',
            message = ''down''\<rparr>"
       and lastError = None
       and st = 401 and b = "JStr ''Unauthorized''"
       and ts = "''2024-01-01T00:00:00.000Z''"
       and s = "''backend''" and l = "''error''" and p = "''db''" and m = "''down''"]
    sendLoop_auth
    [where attempt = 1
       and this = "createBackendLogger ''http://collector'' ''tok''"
       and net = "via_axios (\<lambda>n. HttpResponse 401 (JStr ''Unauthorized''))"
       and err = "\<lparr>isAxiosError = True, response_status = Some 401,
            err_message = ''Request failed with status code '' @ show_int 401\<rparr>"
       and logEntry = "\<lparr>stack = ''backend'', level = ''error'', package = ''db'',
            message = ''down''\<rparr>"
       and lastError = None]
  by (simp add: createBackendLogger_def constructor_def Let_def via_axios_def
      post_request_def axios_create_def is_auth_failure_def warn_attempt_def auth_failed_def)

section \<open>Console echo\<close>

text \<open>
  C6. With the console enabled and one of the five levels, the first event of a \<open>log\<close>
  call, before every request, is one console line
  \<^verbatim>\<open>[timestamp] [STACK] [LEVEL] [package] message\<close> with stack and level in upper case,
  on the channel of the level (debug, info, warn; error for error and fatal); the rest
  of the trace is the delivery, and that line occurs exactly once in the whole trace.
\<close>

theorem console_echo_first:
  "enableConsoleLog (config this)
     \<and> l \<in> set [''debug'', ''info'', ''warn'', ''error'', ''fatal''] \<longrightarrow>
   fst (log this ts net s l p m) =
     Console
       (if l = ''debug'' then ChDebug else if l = ''info'' then ChInfo
        else if l = ''warn'' then ChWarn else ChError)
       [Text (''['' @ ts @ ''] ['' @ toUpperCase s @ ''] ['' @ toUpperCase l @ ''] [''
                @ p @ ''] '' @ m)]
     # fst (sendLogToAPI this net \<lparr>stack = s, level = l, package = p, message = m\<rparr>)
   \<and> count_list (fst (log this ts net s l p m))
       (Console
         (if l = ''debug'' then ChDebug else if l = ''info'' then ChInfo
          else if l = ''warn'' then ChWarn else ChError)
         [Text (''['' @ ts @ ''] ['' @ toUpperCase s @ ''] ['' @ toUpperCase l @ ''] [''
                  @ p @ ''] '' @ m)]) = 1"
proof (intro impI)
  let ?e = "\<lparr>stack = s, level = l, package = p, message = m\<rparr>"
  let ?ch = "if l = ''debug'' then ChDebug else if l = ''info'' then ChInfo
             else if l = ''warn'' then ChWarn else ChError"
  let ?t = "ts @ ''] ['' @ toUpperCase s @ ''] ['' @ toUpperCase l @ ''] ['' @ p @ ''] '' @ m"
  assume a: "enableConsoleLog (config this)
     \<and> l \<in> set [''debug'', ''info'', ''warn'', ''error'', ''fatal'']"
  then have echo: "logToConsole ts ?e = [Console ?ch [Text (CHR ''['' # ?t)]]"
    by (auto simp add: logToConsole_def logMessage_def)
  with a have trace: "fst (log this ts net s l p m) =
      Console ?ch [Text (CHR ''['' # ?t)] # fst (sendLogToAPI this net ?e)"
    by (simp add: log_def Let_def)
  have "count_list (Console ?ch [Text (CHR ''['' # ?t)] # fst (sendLogToAPI this net ?e))
      (Console ?ch [Text (CHR ''['' # ?t)]) = 1"
    by (rule count_list_head) (rule echo_not_in_sendLogToAPI)
  with trace show "fst (log this ts net s l p m) =
     Console ?ch [Text (''['' @ ?t)] # fst (sendLogToAPI this net ?e)
   \<and> count_list (fst (log this ts net s l p m)) (Console ?ch [Text (''['' @ ?t)]) = 1"
    by simp
qed

theorem console_echo_first_witness:
  "enableConsoleLog (config (createFrontendLogger ''http://collector'' ''tok''))
   \<and> ''fatal'' \<in> set [''debug'', ''info'', ''warn'', ''error'', ''fatal'']
   \<and> fst (log (createFrontendLogger ''http://collector'' ''tok'')
        ''2024-01-01T00:00:00.000Z''
        (\<lambda>n. Inr \<lparr>status = 200, data = JObj [(''logID'', JStr ''a1'')]\<rparr>)
        ''frontend'' ''fatal'' ''page'' ''crash'') =
      [Console ChError [Text ''[2024-01-01T00:00:00.000Z] [FRONTEND] [FATAL] [page] crash''],
       Post \<lparr>http_method = ''POST'', req_baseURL = ''http://collector'', url = ''/logs'',
              req_headers = [''Content-Type'' \<mapsto> ''application/json'',
                             ''Authorization'' \<mapsto> ''Bearer tok''],
              body = \<lparr>stack = ''frontend'', level = ''fatal'', package = ''page'',
                       message = ''crash''\<rparr>,
              req_timeout = 10000\<rparr>]"
  using console_echo_first
    [where this = "createFrontendLogger ''http://collector'' ''tok''"
       and ts = "''2024-01-01T00:00:00.000Z''"
       and net = "\<lambda>n. Inr \<lparr>status = 200, data = JObj [(''logID'', JStr ''a1'')]\<rparr>"
       and s = "''frontend''" and l = "''fatal''" and p = "''page''" and m = "''crash''"]
  by (simp add: createFrontendLogger_def constructor_def Let_def toUpperCase_def
      upper_char_def sendLogToAPI_def sendLoop.simps post_request_def axios_create_def)

section \<open>Severity methods\<close>

text \<open>
  C8. Each severity method is \<open>log\<close> applied to the configured default stack and the
  method's level, for every package and message; so every request a severity method
  issues carries the default stack, while a request of \<open>log\<close> carries the stack the
  caller passed.
\<close>

theorem severity_methods_use_defaultStack:
  "debug this ts net p m = log this ts net (defaultStack (config this)) ''debug'' p m
   \<and> info this ts net p m = log this ts net (defaultStack (config this)) ''info'' p m
   \<and> warn this ts net p m = log this ts net (defaultStack (config this)) ''warn'' p m
   \<and> error this ts net p m = log this ts net (defaultStack (config this)) ''error'' p m
   \<and> fatal this ts net p m = log this ts net (defaultStack (config this)) ''fatal'' p m
   \<and> (\<forall>r \<in> set (posts (fst (debug this ts net p m)) @ posts (fst (info this ts net p m))
               @ posts (fst (warn this ts net p m)) @ posts (fst (error this ts net p m))
               @ posts (fst (fatal this ts net p m))).
         stack (body r) = defaultStack (config this))
   \<and> (\<forall>r \<in> set (posts (fst (log this ts net s l p m))). stack (body r) = s)"
proof -
  have "stack (body r) = s'" if "r \<in> set (posts (fst (log this ts net s' l' p m)))"
    for r s' l'
    using posts_log_request [OF that] by (simp add: post_request_def)
  then show ?thesis
    by (auto simp add: debug_def info_def warn_def error_def fatal_def)
qed

theorem severity_methods_use_defaultStack_witness:
  "\<lparr>http_method = ''POST'', req_baseURL = ''http://collector'', url = ''/logs'',
      req_headers = [''Content-Type'' \<mapsto> ''application/json'',
                     ''Authorization'' \<mapsto> ''Bearer tok''],
      body = \<lparr>stack = ''backend'', level = ''warn'', package = ''db'',
               message = ''slow query''\<rparr>,
      req_timeout = 10000\<rparr>
     \<in> set (posts (fst (debug (createBackendLogger ''http://collector'' ''tok'')
            ''2024-01-01T00:00:00.000Z''
            (\<lambda>n. Inr \<lparr>status = 200, data = JObj [(''logID'', JStr ''a1'')]\<rparr>)
            ''db'' ''slow query''))
         @ posts (fst (info (createBackendLogger ''http://collector'' ''tok'')
            ''2024-01-01T00:00:00.000Z''
            (\<lambda>n. Inr \<lparr>status = 200, data = JObj [(''logID'', JStr ''a1'')]\<rparr>)
            ''db'' ''slow query''))
         @ posts (fst (warn (createBackendLogger ''http://collector'' ''tok'')
            ''2024-01-01T00:00:00.000Z''
            (\<lambda>n. Inr \<lparr>status = 200, data = JObj [(''logID'', JStr ''a1'')]\<rparr>)
            ''db'' ''slow query''))
         @ posts (fst (error (createBackendLogger ''http://collector'' ''tok'')
            ''2024-01-01T00:00:00.000Z''
            (\<lambda>n. Inr \<lparr>status = 200, data = JObj [(''logID'', JStr ''a1'')]\<rparr>)
            ''db'' ''slow query''))
         @ posts (fst (fatal (createBackendLogger ''http://collector'' ''tok'')
            ''2024-01-01T00:00:00.000Z''
            (\<lambda>n. Inr \<lparr>status = 200, data = JObj [(''logID'', JStr ''a1'')]\<rparr>)
            ''db'' ''slow query'')))
   \<and> defaultStack (config (createBackendLogger ''http://collector'' ''tok'')) = ''backend''
   \<and> posts (fst (log (createBackendLogger ''http://collector'' ''tok'')
        ''2024-01-01T00:00:00.000Z''
        (\<lambda>n. Inr \<lparr>status = 200, data = JObj [(''logID'', JStr ''a1'')]\<rparr>)
        ''frontend'' ''warn'' ''db'' ''slow query'')) =
     [\<lparr>http_method = ''POST'', req_baseURL = ''http://collector'', url = ''/logs'',
        req_headers = [''Content-Type'' \<mapsto> ''application/json'',
                       ''Authorization'' \<mapsto> ''Bearer tok''],
        body = \<lparr>stack = ''frontend'', level = ''warn'', package = ''db'',
                 message = ''slow query''\<rparr>,
        req_timeout = 10000\<rparr>]
   \<and> warn (createBackendLogger ''http://collector'' ''tok'')
        ''2024-01-01T00:00:00.000Z''
        (\<lambda>n. Inr \<lparr>status = 200, data = JObj [(''logID'', JStr ''a1'')]\<rparr>)
        ''db'' ''slow query'' =
     ([Post \<lparr>http_method = ''POST'', req_baseURL = ''http://collector'', url = ''/logs'',
        req_headers = [''Content-Type'' \<mapsto> ''application/json'',
                       ''Authorization'' \<mapsto> ''Bearer tok''],
        body = \<lparr>stack = ''backend'', level = ''warn'', package = ''db'',
                 message = ''slow query''\<rparr>,
        req_timeout = 10000\<rparr>],
      Inr (Some (JObj [(''logID'', JStr ''a1'')])))"
  using severity_methods_use_defaultStack
    [where this = "createBackendLogger ''http://collector'' ''tok''"
       and ts = "''2024-01-01T00:00:00.000Z''"
       and net = "\<lambda>n. Inr \<lparr>status = 200, data = JObj [(''logID'', JStr ''a1'')]\<rparr>"
       and s = "''frontend''" and l = "''warn''" and p = "''db''" and m = "''slow query''"]
  by (simp add: createBackendLogger_def constructor_def Let_def log_def
      sendLogToAPI_def sendLoop.simps post_request_def axios_create_def)

section \<open>The wire contract, the defaults and the factory profiles\<close>

lemma apiClient_updateAccessToken:
  assumes "apiClient this =
     \<lparr>baseURL = apiUrl (config this),
      headers = [''Content-Type'' \<mapsto> ''application/json'',
                 ''Authorization'' \<mapsto> ''Bearer '' @ accessToken (config this)],
      timeout = 10000\<rparr>"
  shows "apiClient (updateAccessToken t this) =
     \<lparr>baseURL = apiUrl (config (updateAccessToken t this)),
      headers = [''Content-Type'' \<mapsto> ''application/json'',
                 ''Authorization'' \<mapsto>
                   ''Bearer '' @ accessToken (config (updateAccessToken t this))],
      timeout = 10000\<rparr>"
  using assms by (simp add: updateAccessToken_def)

lemma apiClient_after_updates:
  "apiClient (foldl (\<lambda>t tok. updateAccessToken tok t) (constructor c) toks) =
     \<lparr>baseURL = apiUrl (config (foldl (\<lambda>t tok. updateAccessToken tok t) (constructor c) toks)),
      headers = [''Content-Type'' \<mapsto> ''application/json'',
                 ''Authorization'' \<mapsto> ''Bearer '' @
                    accessToken (config (foldl (\<lambda>t tok. updateAccessToken tok t)
                                           (constructor c) toks))],
      timeout = 10000\<rparr>"
proof (induction toks rule: rev_induct)
  case Nil
  have "apiClient (constructor c) =
     \<lparr>baseURL = apiUrl (config (constructor c)),
      headers = [''Content-Type'' \<mapsto> ''application/json'',
                 ''Authorization'' \<mapsto> ''Bearer '' @ accessToken (config (constructor c))],
      timeout = 10000\<rparr>"
    by (simp add: constructor_def Let_def axios_create_def)
  then show ?case
    by (simp only: foldl_Nil)
next
  case (snoc tok toks)
  from apiClient_updateAccessToken [OF snoc, of tok] show ?case
    by (simp only: foldl_append foldl_Cons foldl_Nil)
qed

lemma config_after_updates:
  "config (foldl (\<lambda>t tok. updateAccessToken tok t) (constructor c) toks) =
     (config (constructor c))\<lparr>accessToken := last (arg_accessToken c # toks)\<rparr>"
proof (induction toks rule: rev_induct)
  case Nil
  show ?case
    by (simp add: constructor_def Let_def)
next
  case (snoc tok toks)
  then show ?case
    by (simp add: updateAccessToken_def)
qed

lemma apiUrl_after_updates:
  "apiUrl (config (foldl (\<lambda>t tok. updateAccessToken tok t) (constructor c) toks)) =
     arg_apiUrl c"
  by (simp add: config_after_updates) (simp add: constructor_def Let_def)

text \<open>
  C9. On an instance built by the constructor, whatever tokens have been set since,
  every request of \<open>log\<close> is a POST of the path \<^verbatim>\<open>/logs\<close> on the base URL \<open>apiUrl\<close>, with
  the two headers \<^verbatim>\<open>Content-Type: application/json\<close> and
  \<^verbatim>\<open>Authorization: Bearer\<close> followed by the current access token, the four fields of the
  entry as body and a timeout of 10000 ms. A constructor argument without the optional
  properties gets \<open>enableConsoleLog = true\<close>, \<open>retryAttempts = 3\<close>, \<open>retryDelay = 1000\<close>;
  the frontend profile is (frontend, console on, 3, 1000), the backend profile
  (backend, console off, 5, 2000).
\<close>

theorem request_shape_and_profiles:
  "(\<forall>r \<in> set (posts (fst (log (foldl (\<lambda>t tok. updateAccessToken tok t) (constructor c) toks)
                              ts net s l p m))).
      r = \<lparr>http_method = ''POST'', req_baseURL = arg_apiUrl c, url = ''/logs'',
           req_headers =
             [''Content-Type'' \<mapsto> ''application/json'',
              ''Authorization'' \<mapsto> ''Bearer '' @
                 accessToken (config (foldl (\<lambda>t tok. updateAccessToken tok t)
                                        (constructor c) toks))],
           body = \<lparr>stack = s, level = l, package = p, message = m\<rparr>,
           req_timeout = 10000\<rparr>)
   \<and> accessToken (config (foldl (\<lambda>t tok. updateAccessToken tok t) (constructor c) toks)) =
       last (arg_accessToken c # toks)
   \<and> config (constructor
        \<lparr>arg_apiUrl = u, arg_accessToken = t, arg_defaultStack = d,
         arg_enableConsoleLog = None, arg_retryAttempts = None, arg_retryDelay = None\<rparr>) =
       \<lparr>apiUrl = u, accessToken = t, defaultStack = d, enableConsoleLog = True,
        retryAttempts = 3, retryDelay = 1000\<rparr>
   \<and> config (createFrontendLogger u t) =
       \<lparr>apiUrl = u, accessToken = t, defaultStack = ''frontend'', enableConsoleLog = True,
        retryAttempts = 3, retryDelay = 1000\<rparr>
   \<and> config (createBackendLogger u t) =
       \<lparr>apiUrl = u, accessToken = t, defaultStack = ''backend'', enableConsoleLog = False,
        retryAttempts = 5, retryDelay = 2000\<rparr>"
proof (intro conjI ballI)
  let ?L = "foldl (\<lambda>t tok. updateAccessToken tok t) (constructor c) toks"
  fix r
  assume "r \<in> set (posts (fst (log ?L ts net s l p m)))"
  then have "r = post_request (apiClient ?L) ''/logs''
      \<lparr>stack = s, level = l, package = p, message = m\<rparr>"
    by (rule posts_log_request)
  then show "r = \<lparr>http_method = ''POST'', req_baseURL = arg_apiUrl c, url = ''/logs'',
           req_headers =
             [''Content-Type'' \<mapsto> ''application/json'',
              ''Authorization'' \<mapsto> ''Bearer '' @ accessToken (config ?L)],
           body = \<lparr>stack = s, level = l, package = p, message = m\<rparr>,
           req_timeout = 10000\<rparr>"
    by (simp add: post_request_def apiClient_after_updates [of c toks]
        apiUrl_after_updates [of c toks])
next
  show "accessToken (config (foldl (\<lambda>t tok. updateAccessToken tok t) (constructor c) toks)) =
       last (arg_accessToken c # toks)"
    by (simp add: config_after_updates)
qed (simp_all add: constructor_def Let_def createFrontendLogger_def createBackendLogger_def)

theorem request_shape_and_profiles_witness:
  "posts (fst (log (foldl (\<lambda>t tok. updateAccessToken tok t)
         (constructor \<lparr>arg_apiUrl = ''http://collector'', arg_accessToken = ''old'',
            arg_defaultStack = ''frontend'', arg_enableConsoleLog = Some False,
            arg_retryAttempts = None, arg_retryDelay = None\<rparr>) [''new''])
       ''2024-01-01T00:00:00.000Z''
       (\<lambda>n. Inr \<lparr>status = 200, data = JObj [(''logID'', JStr ''a1'')]\<rparr>)
       ''frontend'' ''info'' ''api'' ''hello'')) =
     [\<lparr>http_method = ''POST'', req_baseURL = ''http://collector'', url = ''/logs'',
        req_headers = [''Content-Type'' \<mapsto> ''application/json'',
                       ''Authorization'' \<mapsto> ''Bearer new''],
        body = \<lparr>stack = ''frontend'', level = ''info'', package = ''api'',
                 message = ''hello''\<rparr>,
        req_timeout = 10000\<rparr>]
   \<and> config (createBackendLogger ''http://collector'' ''tok'') =
       \<lparr>apiUrl = ''http://collector'', accessToken = ''tok'', defaultStack = ''backend'',
        enableConsoleLog = False, retryAttempts = 5, retryDelay = 2000\<rparr>"
  using request_shape_and_profiles
    [where c = "\<lparr>arg_apiUrl = ''http://collector'', arg_accessToken = ''old'',
            arg_defaultStack = ''frontend'', arg_enableConsoleLog = Some False,
            arg_retryAttempts = None, arg_retryDelay = None\<rparr>"
       and toks = "[''new'']"
       and ts = "''2024-01-01T00:00:00.000Z''"
       and net = "\<lambda>n. Inr \<lparr>status = 200, data = JObj [(''logID'', JStr ''a1'')]\<rparr>"
       and s = "''frontend''" and l = "''info''" and p = "''api''" and m = "''hello''"
       and u = "''http://collector''" and t = "''tok''"]
  by (simp add: constructor_def Let_def log_def updateAccessToken_def
      sendLogToAPI_def sendLoop.simps post_request_def axios_create_def)

section \<open>Replacing the access token\<close>

lemma config_apply_updates:
  "retryAttempts (config (apply_updates toks this)) = retryAttempts (config this)
   \<and> retryDelay (config (apply_updates toks this)) = retryDelay (config this)
   \<and> enableConsoleLog (config (apply_updates toks this)) = enableConsoleLog (config this)
   \<and> defaultStack (config (apply_updates toks this)) = defaultStack (config this)
   \<and> apiUrl (config (apply_updates toks this)) = apiUrl (config this)"
  unfolding apply_updates_def
  by (induction toks arbitrary: this) (simp_all add: updateAccessToken_def)

lemma warn_attempt_apply_updates [simp]:
  "warn_attempt (apply_updates toks this) n e = warn_attempt this n e"
  by (simp add: warn_attempt_def config_apply_updates)

lemma auth_failed_apply_updates [simp]:
  "auth_failed (apply_updates toks this) = auth_failed this"
  by (simp add: auth_failed_def config_apply_updates)

lemma backoff_apply_updates [simp]:
  "backoff (apply_updates toks this) n = backoff this n"
  by (simp add: backoff_def config_apply_updates)

lemma failure_diagnostic_apply_updates [simp]:
  "failure_diagnostic (apply_updates toks this) le e = failure_diagnostic this le e"
  by (simp add: failure_diagnostic_def config_apply_updates)

lemma apply_updates_Nil [simp]: "apply_updates [] this = this"
  by (simp add: apply_updates_def)

lemma apply_updates_snoc:
  "apply_updates (toks @ [t]) this = updateAccessToken t (apply_updates toks this)"
  by (simp add: apply_updates_def)

lemma fst_emit_i [simp]: "fst (emit_i es r) = es @ fst r"
  by (simp add: emit_i_def)

lemma snd_emit_i [simp]: "snd (emit_i es r) = snd r"
  by (simp add: emit_i_def)

lemma interleaved_past:
  "retryAttempts (config this) < attempt \<Longrightarrow>
   sendLoop_interleaved this upd net logEntry attempt lastError = ([], Exited lastError, this)"
  by (simp add: sendLoop_interleaved.simps)

lemma interleaved_success:
  "attempt \<le> retryAttempts (config this) \<Longrightarrow> net attempt = Inr resp \<Longrightarrow>
   status resp = 200 \<Longrightarrow> truthy (data resp) \<Longrightarrow>
   sendLoop_interleaved this upd net logEntry attempt lastError =
     ([Post (post_request (apiClient this) ''/logs'' logEntry)], Returned (data resp),
      apply_updates (upd attempt) this)"
  by (simp add: sendLoop_interleaved.simps)

lemma interleaved_resolved_failure:
  "attempt \<le> retryAttempts (config this) \<Longrightarrow> net attempt = Inr resp \<Longrightarrow>
   \<not> (status resp = 200 \<and> truthy (data resp)) \<Longrightarrow>
   sendLoop_interleaved this upd net logEntry attempt lastError =
     emit_i [Post (post_request (apiClient this) ''/logs'' logEntry)]
       (sendLoop_interleaved (apply_updates (upd attempt) this) upd net logEntry
          (attempt + 1) lastError)"
  by (subst sendLoop_interleaved.simps) (simp only: if_True if_False sum.case)

lemma interleaved_auth:
  "attempt \<le> retryAttempts (config this) \<Longrightarrow> net attempt = Inl err \<Longrightarrow>
   is_auth_failure err \<Longrightarrow>
   sendLoop_interleaved this upd net logEntry attempt lastError =
     ([Post (post_request (apiClient this) ''/logs'' logEntry)]
        @ warn_attempt this attempt err @ auth_failed this,
      Exited (Some err), apply_updates (upd attempt) this)"
  by (simp add: sendLoop_interleaved.simps)

lemma interleaved_rejected:
  "attempt \<le> retryAttempts (config this) \<Longrightarrow> net attempt = Inl err \<Longrightarrow>
   \<not> is_auth_failure err \<Longrightarrow>
   sendLoop_interleaved this upd net logEntry attempt lastError =
     emit_i ([Post (post_request (apiClient this) ''/logs'' logEntry)]
             @ warn_attempt this attempt err @ backoff this attempt)
       (sendLoop_interleaved (apply_updates (upd attempt) this) upd net logEntry
          (attempt + 1) (Some err))"
  by (subst sendLoop_interleaved.simps)
    (simp only: if_True if_False sum.case warn_attempt_apply_updates backoff_apply_updates)

text \<open>The shape of one iteration, whatever the network does.\<close>

lemma interleaved_step:
  assumes "attempt \<le> retryAttempts (config this)"
  shows "(\<exists>es x. sendLoop_interleaved this upd net logEntry attempt lastError =
            (Post (post_request (apiClient this) ''/logs'' logEntry) # es, x,
             apply_updates (upd attempt) this) \<and> posts es = [])
       \<or> (\<exists>es le. sendLoop_interleaved this upd net logEntry attempt lastError =
            emit_i (Post (post_request (apiClient this) ''/logs'' logEntry) # es)
              (sendLoop_interleaved (apply_updates (upd attempt) this) upd net logEntry
                 (attempt + 1) le) \<and> posts es = [])"
proof (cases "net attempt")
  case (Inr resp)
  show ?thesis
  proof (cases "status resp = 200 \<and> truthy (data resp)")
    case True
    with assms Inr interleaved_success [of attempt this net resp upd logEntry lastError]
    show ?thesis by simp
  next
    case False
    with assms Inr interleaved_resolved_failure [of attempt this net resp upd logEntry lastError]
    have "sendLoop_interleaved this upd net logEntry attempt lastError =
        emit_i (Post (post_request (apiClient this) ''/logs'' logEntry) # [])
          (sendLoop_interleaved (apply_updates (upd attempt) this) upd net logEntry
             (attempt + 1) lastError) \<and> posts [] = []"
      by simp
    then show ?thesis by blast
  qed
next
  case (Inl err)
  show ?thesis
  proof (cases "is_auth_failure err")
    case True
    with assms Inl interleaved_auth [of attempt this net err upd logEntry lastError]
    show ?thesis by simp
  next
    case False
    with assms Inl interleaved_rejected [of attempt this net err upd logEntry lastError]
    have "sendLoop_interleaved this upd net logEntry attempt lastError =
        emit_i (Post (post_request (apiClient this) ''/logs'' logEntry)
                  # (warn_attempt this attempt err @ backoff this attempt))
          (sendLoop_interleaved (apply_updates (upd attempt) this) upd net logEntry
             (attempt + 1) (Some err))
        \<and> posts (warn_attempt this attempt err @ backoff this attempt) = []"
      by simp
    then show ?thesis by blast
  qed
qed


text \<open>
  Each request is built from the defaults of the instance as it is when the request is
  dispatched, and the loop itself leaves the instance alone: at the end it is the
  instance the scheduled calls of \<open>updateAccessToken\<close> have made.
\<close>

lemma interleaved_requests:
  "(\<forall>i < length (posts (fst (sendLoop_interleaved this upd net logEntry attempt lastError))).
       posts (fst (sendLoop_interleaved this upd net logEntry attempt lastError)) ! i =
         post_request (apiClient (instance_after this upd attempt i)) ''/logs'' logEntry)
   \<and> snd (snd (sendLoop_interleaved this upd net logEntry attempt lastError)) =
       instance_after this upd attempt
         (length (posts (fst (sendLoop_interleaved this upd net logEntry attempt lastError))))"
proof (induction "nat (retryAttempts (config this) + 1 - attempt)"
    arbitrary: this attempt lastError)
  case 0
  then have "retryAttempts (config this) < attempt" by simp
  then show ?case by (simp add: interleaved_past)
next
  case (Suc n)
  let ?rq = "post_request (apiClient this) ''/logs'' logEntry"
  let ?this' = "apply_updates (upd attempt) this"
  from Suc.hyps(2) have le: "attempt \<le> retryAttempts (config this)" by simp
  from interleaved_step [OF le, of upd net logEntry lastError]
  consider (stop) es x where
      "sendLoop_interleaved this upd net logEntry attempt lastError = (Post ?rq # es, x, ?this')"
      "posts es = []"
    | (go) es le' where
      "sendLoop_interleaved this upd net logEntry attempt lastError =
         emit_i (Post ?rq # es)
           (sendLoop_interleaved ?this' upd net logEntry (attempt + 1) le')"
      "posts es = []"
    by blast
  then show ?case
  proof cases
    case stop
    then show ?thesis by simp
  next
    case go
    let ?rec = "sendLoop_interleaved ?this' upd net logEntry (attempt + 1) le'"
    from Suc.hyps(2) have "n = nat (retryAttempts (config ?this') + 1 - (attempt + 1))"
      by (simp add: config_apply_updates)
    from Suc.hyps(1) [OF this, of le']
    have nth: "\<And>j. j < length (posts (fst ?rec)) \<Longrightarrow>
        posts (fst ?rec) ! j =
          post_request (apiClient (instance_after ?this' upd (attempt + 1) j)) ''/logs'' logEntry"
      and fin: "snd (snd ?rec) =
        instance_after ?this' upd (attempt + 1) (length (posts (fst ?rec)))"
      by simp_all
    have ps: "posts (fst (sendLoop_interleaved this upd net logEntry attempt lastError)) =
        ?rq # posts (fst ?rec)"
      by (simp add: go)
    have "posts (fst (sendLoop_interleaved this upd net logEntry attempt lastError)) ! i =
        post_request (apiClient (instance_after this upd attempt i)) ''/logs'' logEntry"
      if "i < length (posts (fst (sendLoop_interleaved this upd net logEntry attempt lastError)))"
      for i
    proof (cases i)
      case 0
      then show ?thesis by (simp add: ps)
    next
      case (Suc j)
      with that have "j < length (posts (fst ?rec))" by (simp add: ps)
      from nth [OF this] Suc show ?thesis by (simp add: ps)
    qed
    moreover have "snd (snd (sendLoop_interleaved this upd net logEntry attempt lastError)) =
        instance_after this upd attempt
          (length (posts (fst (sendLoop_interleaved this upd net logEntry attempt lastError))))"
      by (simp add: ps) (simp add: go fin)
    ultimately show ?thesis by blast
  qed
qed

lemma instance_after_Suc:
  "instance_after this upd a (Suc i) =
     apply_updates (upd (a + int i)) (instance_after this upd a i)"
proof (induction i arbitrary: this a)
  case 0
  show ?case by simp
next
  case (Suc i)
  have "instance_after this upd a (Suc (Suc i)) =
      instance_after (apply_updates (upd a) this) upd (a + 1) (Suc i)"
    by simp
  also have "\<dots> = apply_updates (upd (a + 1 + int i))
      (instance_after (apply_updates (upd a) this) upd (a + 1) i)"
    by (rule Suc.IH)
  also have "a + 1 + int i = a + int (Suc i)"
    by simp
  also have "instance_after (apply_updates (upd a) this) upd (a + 1) i =
      instance_after this upd a (Suc i)"
    by simp
  finally show ?case .
qed

lemma instance_after_settled:
  assumes "Suc i \<le> j" and "\<forall>k. a + int i < k \<longrightarrow> upd k = []"
  shows "instance_after this upd a j = instance_after this upd a (Suc i)"
  using assms(1)
proof (induction j)
  case 0
  then show ?case by simp
next
  case (Suc j)
  show ?case
  proof (cases "Suc i \<le> j")
    case True
    with assms(2) have "upd (a + int j) = []" by simp
    with Suc.IH [OF True] show ?thesis
      by (simp only: instance_after_Suc [of this upd a j] apply_updates_Nil)
  next
    case False
    with Suc.prems have "j = i" by simp
    then show ?thesis by simp
  qed
qed

lemma instance_after_cong:
  "(\<forall>k. a \<le> k \<and> k < a + int i \<longrightarrow> upd' k = upd k) \<Longrightarrow>
   instance_after this upd' a i = instance_after this upd a i"
proof (induction i arbitrary: this a)
  case 0
  show ?case by simp
next
  case (Suc i)
  from Suc.prems have here: "upd' a = upd a" by simp
  from Suc.prems have "\<forall>k. a + 1 \<le> k \<and> k < a + 1 + int i \<longrightarrow> upd' k = upd k" by simp
  from Suc.IH [OF this] here show ?case by simp
qed

lemma interleaved_without_updates:
  "(\<forall>k. upd k = []) \<Longrightarrow>
   sendLoop_interleaved this upd net logEntry attempt lastError =
     (fst (sendLoop this net logEntry attempt lastError),
      snd (sendLoop this net logEntry attempt lastError), this)"
proof (induction this net logEntry attempt lastError rule: sendLoop.induct)
  case (1 this net logEntry attempt lastError)
  show ?case
  proof (cases "attempt \<le> retryAttempts (config this)")
    case False
    then show ?thesis by (simp add: sendLoop_past interleaved_past)
  next
    case le: True
    from "1.prems" have u: "apply_updates (upd attempt) this = this" by simp
    show ?thesis
    proof (cases "net attempt")
      case (Inr resp)
      show ?thesis
      proof (cases "status resp = 200 \<and> truthy (data resp)")
        case True
        with le Inr u show ?thesis
          by (simp add: sendLoop_success interleaved_success)
      next
        case False
        from "1.IH"(2) [OF le Inr False "1.prems"]
          sendLoop_resolved_failure [of attempt this net resp logEntry lastError]
          interleaved_resolved_failure [of attempt this net resp upd logEntry lastError]
          le Inr False u
        show ?thesis by (simp add: emit_def emit_i_def)
      qed
    next
      case (Inl err)
      show ?thesis
      proof (cases "is_auth_failure err")
        case True
        with le Inl u show ?thesis
          by (simp add: sendLoop_auth interleaved_auth)
      next
        case False
        from "1.IH"(1) [OF le Inl False "1.prems"]
          sendLoop_rejected [of attempt this net err logEntry lastError]
          interleaved_rejected [of attempt this net err upd logEntry lastError]
          le Inl False u
        show ?thesis by (simp add: emit_def emit_i_def)
      qed
    qed
  qed
qed


lemma sendLogToAPI_interleaved_parts:
  "posts (fst (sendLogToAPI_interleaved this upd net logEntry)) =
     posts (fst (sendLoop_interleaved this upd net logEntry 1 None))
   \<and> snd (snd (sendLogToAPI_interleaved this upd net logEntry)) =
     snd (snd (sendLoop_interleaved this upd net logEntry 1 None))"
proof (cases "sendLoop_interleaved this upd net logEntry 1 None")
  case (fields es ex this')
  then show ?thesis
    by (cases ex) (simp_all add: sendLogToAPI_interleaved_def)
qed

lemma log_interleaved_parts:
  "posts (fst (log_interleaved this ts upd net s l p m)) =
     posts (fst (sendLoop_interleaved this upd net
       \<lparr>stack = s, level = l, package = p, message = m\<rparr> 1 None))
   \<and> snd (snd (log_interleaved this ts upd net s l p m)) =
     snd (snd (sendLoop_interleaved this upd net
       \<lparr>stack = s, level = l, package = p, message = m\<rparr> 1 None))"
  by (simp add: log_interleaved_def Let_def sendLogToAPI_interleaved_parts)

lemma log_without_updates:
  assumes "\<forall>k. upd k = []"
  shows "log_interleaved this ts upd net s l p m =
     (fst (log this ts net s l p m), snd (log this ts net s l p m), this)"
proof -
  let ?e = "\<lparr>stack = s, level = l, package = p, message = m\<rparr>"
  have "sendLogToAPI_interleaved this upd net ?e =
      (fst (sendLogToAPI this net ?e), snd (sendLogToAPI this net ?e), this)"
  proof (cases "sendLoop this net ?e 1 None")
    case (Pair es ex)
    with interleaved_without_updates [OF assms, of this net ?e 1 None] show ?thesis
      by (cases ex) (simp_all add: sendLogToAPI_interleaved_def sendLogToAPI_def)
  qed
  then show ?thesis
    by (simp add: log_interleaved_def log_def Let_def)
qed

lemma Authorization_after_update:
  "headers (apiClient (apply_updates (toks @ [t]) this)) ''Authorization'' =
     Some (''Bearer '' @ t)"
  by (simp add: apply_updates_snoc updateAccessToken_def)

text \<open>
  C7. \<open>updateAccessToken\<close> works on the existing instance: it sets \<open>accessToken\<close> and
  the \<^verbatim>\<open>Authorization\<close> header and leaves every other field of the configuration,
  every other header, the base URL and the timeout as they were; \<open>getConfig\<close> only
  reads. During a call of \<open>log\<close>, with any calls of \<open>updateAccessToken\<close> arriving while
  it is suspended, every request is built from the instance as it is when the request
  is dispatched: a request dispatched right after an update carries \<^verbatim>\<open>Bearer\<close> followed
  by the new token, so does every later request of the call while no further update
  arrives, and the instance a request was built from depends on the updates
  before its dispatch only, so a request already dispatched is what it would have been
  without the later updates. \<open>log\<close> itself changes nothing: at the end of the call the
  instance is the one the scheduled updates have made, and when none arrives the call
  is \<open>log\<close> (or the severity method) of the sequential reading and the instance is
  unchanged.
\<close>

theorem updateAccessToken_frame:
  "config (updateAccessToken t this) = (config this)\<lparr>accessToken := t\<rparr>
   \<and> headers (apiClient (updateAccessToken t this)) ''Authorization'' = Some (''Bearer '' @ t)
   \<and> (\<forall>k. k \<noteq> ''Authorization'' \<longrightarrow>
         headers (apiClient (updateAccessToken t this)) k = headers (apiClient this) k)
   \<and> baseURL (apiClient (updateAccessToken t this)) = baseURL (apiClient this)
   \<and> timeout (apiClient (updateAccessToken t this)) = timeout (apiClient this)
   \<and> getConfig this = config this
   \<and> (\<forall>i. i < length (posts (fst (log_interleaved this ts upd net s l p m))) \<longrightarrow>
         posts (fst (log_interleaved this ts upd net s l p m)) ! i =
           post_request (apiClient (instance_after this upd 1 i)) ''/logs''
             \<lparr>stack = s, level = l, package = p, message = m\<rparr>)
   \<and> (\<forall>i. instance_after this upd 1 (Suc i) =
         apply_updates (upd (1 + int i)) (instance_after this upd 1 i))
   \<and> (\<forall>i toks. upd (1 + int i) = toks @ [t]
         \<and> Suc i < length (posts (fst (log_interleaved this ts upd net s l p m))) \<longrightarrow>
         req_headers (posts (fst (log_interleaved this ts upd net s l p m)) ! Suc i)
           ''Authorization'' = Some (''Bearer '' @ t))
   \<and> (\<forall>i j toks. upd (1 + int i) = toks @ [t] \<and> (\<forall>k. 1 + int i < k \<longrightarrow> upd k = [])
         \<and> i < j \<and> j < length (posts (fst (log_interleaved this ts upd net s l p m))) \<longrightarrow>
         req_headers (posts (fst (log_interleaved this ts upd net s l p m)) ! j)
           ''Authorization'' = Some (''Bearer '' @ t))
   \<and> (\<forall>i upd'. (\<forall>k. 1 \<le> k \<and> k \<le> int i \<longrightarrow> upd' k = upd k) \<longrightarrow>
         instance_after this upd' 1 i = instance_after this upd 1 i)
   \<and> snd (snd (log_interleaved this ts upd net s l p m)) =
       instance_after this upd 1 (length (posts (fst (log_interleaved this ts upd net s l p m))))
   \<and> ((\<forall>k. upd k = []) \<longrightarrow>
        log_interleaved this ts upd net s l p m =
          (fst (log this ts net s l p m), snd (log this ts net s l p m), this)
        \<and> log_interleaved this ts upd net (defaultStack (config this)) ''debug'' p m =
          (fst (debug this ts net p m), snd (debug this ts net p m), this)
        \<and> log_interleaved this ts upd net (defaultStack (config this)) ''info'' p m =
          (fst (info this ts net p m), snd (info this ts net p m), this)
        \<and> log_interleaved this ts upd net (defaultStack (config this)) ''warn'' p m =
          (fst (warn this ts net p m), snd (warn this ts net p m), this)
        \<and> log_interleaved this ts upd net (defaultStack (config this)) ''error'' p m =
          (fst (error this ts net p m), snd (error this ts net p m), this)
        \<and> log_interleaved this ts upd net (defaultStack (config this)) ''fatal'' p m =
          (fst (fatal this ts net p m), snd (fatal this ts net p m), this))"
proof (intro conjI allI impI)
  let ?e = "\<lparr>stack = s, level = l, package = p, message = m\<rparr>"
  let ?ps = "posts (fst (log_interleaved this ts upd net s l p m))"
  show "config (updateAccessToken t this) = (config this)\<lparr>accessToken := t\<rparr>"
    by (simp add: updateAccessToken_def)
  show "headers (apiClient (updateAccessToken t this)) ''Authorization'' = Some (''Bearer '' @ t)"
    by (simp add: updateAccessToken_def)
  show "headers (apiClient (updateAccessToken t this)) k = headers (apiClient this) k"
    if "k \<noteq> ''Authorization''" for k
    using that by (simp add: updateAccessToken_def)
  show "baseURL (apiClient (updateAccessToken t this)) = baseURL (apiClient this)"
    by (simp add: updateAccessToken_def)
  show "timeout (apiClient (updateAccessToken t this)) = timeout (apiClient this)"
    by (simp add: updateAccessToken_def)
  show "getConfig this = config this"
    by (simp add: getConfig_def)
  show nth: "?ps ! i = post_request (apiClient (instance_after this upd 1 i)) ''/logs'' ?e"
    if "i < length ?ps" for i
    using that interleaved_requests [of this upd net ?e 1 None]
    by (simp add: log_interleaved_parts)
  show "instance_after this upd 1 (Suc i) =
      apply_updates (upd (1 + int i)) (instance_after this upd 1 i)" for i
    by (rule instance_after_Suc)
  show "req_headers (?ps ! Suc i) ''Authorization'' = Some (''Bearer '' @ t)"
    if "upd (1 + int i) = toks @ [t] \<and> Suc i < length ?ps" for i toks
  proof -
    from that nth [of "Suc i"]
    have "?ps ! Suc i = post_request (apiClient (instance_after this upd 1 (Suc i))) ''/logs'' ?e"
      by simp
    moreover from that have "instance_after this upd 1 (Suc i) =
        apply_updates (toks @ [t]) (instance_after this upd 1 i)"
      by (simp only: instance_after_Suc)
    ultimately show ?thesis
      by (simp add: post_request_def Authorization_after_update)
  qed
  show "req_headers (?ps ! j) ''Authorization'' = Some (''Bearer '' @ t)"
    if "upd (1 + int i) = toks @ [t] \<and> (\<forall>k. 1 + int i < k \<longrightarrow> upd k = [])
          \<and> i < j \<and> j < length ?ps" for i j toks
  proof -
    from that nth [of j]
    have "?ps ! j = post_request (apiClient (instance_after this upd 1 j)) ''/logs'' ?e"
      by simp
    moreover from that have "instance_after this upd 1 j = instance_after this upd 1 (Suc i)"
      by (intro instance_after_settled) simp_all
    moreover from that have "instance_after this upd 1 (Suc i) =
        apply_updates (toks @ [t]) (instance_after this upd 1 i)"
      by (simp only: instance_after_Suc)
    ultimately show ?thesis
      by (simp add: post_request_def Authorization_after_update)
  qed
  show "instance_after this upd' 1 i = instance_after this upd 1 i"
    if "\<forall>k. 1 \<le> k \<and> k \<le> int i \<longrightarrow> upd' k = upd k" for i upd'
    using that by (intro instance_after_cong) simp
  show "snd (snd (log_interleaved this ts upd net s l p m)) =
      instance_after this upd 1 (length ?ps)"
    using interleaved_requests [of this upd net ?e 1 None]
    by (simp add: log_interleaved_parts)
  show "log_interleaved this ts upd net s' l' p m =
      (fst (log this ts net s' l' p m), snd (log this ts net s' l' p m), this)"
    if "\<forall>k. upd k = []" for s' l'
    using that by (rule log_without_updates)
  then show "log_interleaved this ts upd net (defaultStack (config this)) ''debug'' p m =
      (fst (debug this ts net p m), snd (debug this ts net p m), this)"
    and "log_interleaved this ts upd net (defaultStack (config this)) ''info'' p m =
      (fst (info this ts net p m), snd (info this ts net p m), this)"
    and "log_interleaved this ts upd net (defaultStack (config this)) ''warn'' p m =
      (fst (warn this ts net p m), snd (warn this ts net p m), this)"
    and "log_interleaved this ts upd net (defaultStack (config this)) ''error'' p m =
      (fst (error this ts net p m), snd (error this ts net p m), this)"
    and "log_interleaved this ts upd net (defaultStack (config this)) ''fatal'' p m =
      (fst (fatal this ts net p m), snd (fatal this ts net p m), this)"
    if "\<forall>k. upd k = []"
    using that by (simp_all add: debug_def info_def warn_def error_def fatal_def)
qed


theorem updateAccessToken_frame_witness:
  "''Content-Type'' \<noteq> ''Authorization''
   \<and> (\<lambda>n. if n = 1 then [''new''] else []) (1 + int 0) = [] @ [''new'']
   \<and> fst (log_interleaved (createBackendLogger ''http://collector'' ''old'')
        ''2024-01-01T00:00:00.000Z''
        (\<lambda>n. if n = 1 then [''new''] else [])
        (via_axios (\<lambda>n. if n = 1 then TimedOut
                         else HttpResponse 200 (JObj [(''logID'', JStr ''a1'')])))
        ''backend'' ''info'' ''api'' ''hello'') =
      [Post \<lparr>http_method = ''POST'', req_baseURL = ''http://collector'', url = ''/logs'',
              req_headers = [''Content-Type'' \<mapsto> ''application/json'',
                             ''Authorization'' \<mapsto> ''Bearer old''],
              body = \<lparr>stack = ''backend'', level = ''info'', package = ''api'',
                       message = ''hello''\<rparr>,
              req_timeout = 10000\<rparr>,
       Delay 2000,
       Post \<lparr>http_method = ''POST'', req_baseURL = ''http://collector'', url = ''/logs'',
              req_headers = [''Content-Type'' \<mapsto> ''application/json'',
                             ''Authorization'' \<mapsto> ''Bearer new''],
              body = \<lparr>stack = ''backend'', level = ''info'', package = ''api'',
                       message = ''hello''\<rparr>,
              req_timeout = 10000\<rparr>]
   \<and> config (snd (snd (log_interleaved (createBackendLogger ''http://collector'' ''old'')
        ''2024-01-01T00:00:00.000Z''
        (\<lambda>n. if n = 1 then [''new''] else [])
        (via_axios (\<lambda>n. if n = 1 then TimedOut
                         else HttpResponse 200 (JObj [(''logID'', JStr ''a1'')])))
        ''backend'' ''info'' ''api'' ''hello''))) =
      \<lparr>apiUrl = ''http://collector'', accessToken = ''new'', defaultStack = ''backend'',
       enableConsoleLog = False, retryAttempts = 5, retryDelay = 2000\<rparr>
   \<and> headers (apiClient (updateAccessToken ''new''
        (createBackendLogger ''http://collector'' ''old''))) ''Content-Type'' =
      Some ''application/json''
   \<and> log_interleaved (createBackendLogger ''http://collector'' ''old'')
        ''2024-01-01T00:00:00.000Z'' (\<lambda>n. [])
        (via_axios (\<lambda>n. HttpResponse 200 (JObj [(''logID'', JStr ''a1'')])))
        (defaultStack (config (createBackendLogger ''http://collector'' ''old'')))
        ''warn'' ''api'' ''hello'' =
      ([Post \<lparr>http_method = ''POST'', req_baseURL = ''http://collector'', url = ''/logs'',
              req_headers = [''Content-Type'' \<mapsto> ''application/json'',
                             ''Authorization'' \<mapsto> ''Bearer old''],
              body = \<lparr>stack = ''backend'', level = ''warn'', package = ''api'',
                       message = ''hello''\<rparr>,
              req_timeout = 10000\<rparr>],
       Inr (Some (JObj [(''logID'', JStr ''a1'')])),
       createBackendLogger ''http://collector'' ''old'')
   \<and> accessToken (config (instance_after (createBackendLogger ''http://collector'' ''old'')
        (\<lambda>n. if n = 1 then [''new''] else if n = 2 then [''later''] else []) 1 1)) = ''new''
   \<and> accessToken (config (instance_after (createBackendLogger ''http://collector'' ''old'')
        (\<lambda>n. if n = 1 then [''new''] else []) 1 1)) = ''new''"
  using updateAccessToken_frame
    [where this = "createBackendLogger ''http://collector'' ''old''"
       and t = "''new''"
       and ts = "''2024-01-01T00:00:00.000Z''"
       and upd = "\<lambda>n. if n = 1 then [''new''] else []"
       and net = "via_axios (\<lambda>n. if n = 1 then TimedOut
                         else HttpResponse 200 (JObj [(''logID'', JStr ''a1'')]))"
       and s = "''backend''" and l = "''info''" and p = "''api''" and m = "''hello''"]
    updateAccessToken_frame
    [where this = "createBackendLogger ''http://collector'' ''old''"
       and t = "''new''"
       and ts = "''2024-01-01T00:00:00.000Z''"
       and upd = "\<lambda>n. []"
       and net = "via_axios (\<lambda>n. HttpResponse 200 (JObj [(''logID'', JStr ''a1'')]))"
       and s = "''backend''" and l = "''warn''" and p = "''api''" and m = "''hello''"]
  by (simp add: createBackendLogger_def constructor_def Let_def log_interleaved_def
      sendLogToAPI_interleaved_def sendLoop_interleaved.simps apply_updates_def
      updateAccessToken_def via_axios_def is_auth_failure_def warn_attempt_def backoff_def
      emit_i_def post_request_def axios_create_def)

section \<open>Backoff between attempts\<close>

text \<open>
  The wait is the last statement of the \<^verbatim>\<open>catch\<close> block: after an exception that is
  not an authentication failure, on an attempt before the last, the loop waits
  \<open>retryDelay * attempt\<close> and then goes on; after the last attempt it does not wait.
\<close>

lemma backoff_after_rejection:
  assumes "attempt < retryAttempts (config this)" and "net attempt = Inl err"
    and "\<not> is_auth_failure err"
  shows "fst (sendLoop this net logEntry attempt lastError) =
     Post (post_request (apiClient this) ''/logs'' logEntry) # warn_attempt this attempt err
       @ Delay (retryDelay (config this) * attempt)
       # fst (sendLoop this net logEntry (attempt + 1) (Some err))"
  using assms sendLoop_rejected [of attempt this net err logEntry lastError]
  by (simp add: backoff_def)

lemma no_backoff_after_last_rejection:
  assumes "attempt = retryAttempts (config this)" and "net attempt = Inl err"
    and "\<not> is_auth_failure err"
  shows "sendLoop this net logEntry attempt lastError =
     (Post (post_request (apiClient this) ''/logs'' logEntry) # warn_attempt this attempt err,
      Exited (Some err))"
  using assms sendLoop_rejected [of attempt this net err logEntry lastError]
    sendLoop_past [of this "attempt + 1" net logEntry "Some err"]
  by (simp add: backoff_def emit_def)

text \<open>Every await throws the same error, which is not an authentication failure.\<close>

lemma sendLoop_always_rejected:
  assumes net: "\<And>n. net n = Inl err" and err: "\<not> is_auth_failure err"
  shows "posts (fst (sendLoop this net logEntry attempt lastError)) =
       replicate (nat (retryAttempts (config this) + 1 - attempt))
         (post_request (apiClient this) ''/logs'' logEntry)
     \<and> delays (fst (sendLoop this net logEntry attempt lastError)) =
       map (\<lambda>k. retryDelay (config this) * k) [attempt..retryAttempts (config this) - 1]
     \<and> snd (sendLoop this net logEntry attempt lastError) =
       Exited (if attempt \<le> retryAttempts (config this) then Some err else lastError)"
  using net
proof (induction this net logEntry attempt lastError rule: sendLoop.induct)
  case (1 this net logEntry attempt lastError)
  let ?N = "retryAttempts (config this)"
  let ?rq = "post_request (apiClient this) ''/logs'' logEntry"
  show ?case
  proof (cases "attempt \<le> ?N")
    case False
    then show ?thesis by (simp add: sendLoop_past)
  next
    case le: True
    have here: "net attempt = Inl err" by (rule "1.prems")
    note IH = "1.IH"(1) [OF le here err "1.prems"]
    have step: "sendLoop this net logEntry attempt lastError =
        emit ([Post ?rq] @ warn_attempt this attempt err @ backoff this attempt)
          (sendLoop this net logEntry (attempt + 1) (Some err))"
      using sendLoop_rejected [of attempt this net err logEntry lastError] le here err
      by simp
    have n: "nat (?N + 1 - attempt) = Suc (nat (?N + 1 - (attempt + 1)))"
      using le by simp
    have p: "posts (fst (sendLoop this net logEntry attempt lastError)) =
        replicate (nat (?N + 1 - attempt)) ?rq"
      using IH by (simp only: step n) simp
    have d: "delays (fst (sendLoop this net logEntry attempt lastError)) =
        map (\<lambda>k. retryDelay (config this) * k) [attempt..?N - 1]"
    proof -
      have d0: "delays (fst (sendLoop this net logEntry attempt lastError)) =
          delays (backoff this attempt)
            @ map (\<lambda>k. retryDelay (config this) * k) [attempt + 1..?N - 1]"
        using IH by (simp add: step)
      show ?thesis
      proof (cases "attempt < ?N")
        case True
        then have "[attempt..?N - 1] = attempt # [attempt + 1..?N - 1]"
          by (simp add: upto_rec1)
        with True show ?thesis
          by (simp add: d0 backoff_def)
      next
        case False
        then show ?thesis
          by (simp add: d0 backoff_def)
      qed
    qed
    have s: "snd (sendLoop this net logEntry attempt lastError) = Exited (Some err)"
      using IH by (simp add: step)
    from p d s le show ?thesis by simp
  qed
qed


text \<open>
  The example of the specification: 500 on the attempts 1 and 2, then 200 with a body,
  three attempts allowed.
\<close>

lemma three_attempts_500_500_200:
  assumes "retryAttempts (config this) = 3" and "truthy b"
  shows "posts (fst (log this ts
            (via_axios (\<lambda>n. if n \<le> 2 then HttpResponse 500 x else HttpResponse 200 b))
            s l p m)) =
       replicate 3 (post_request (apiClient this) ''/logs''
         \<lparr>stack = s, level = l, package = p, message = m\<rparr>)
     \<and> delays (fst (log this ts
            (via_axios (\<lambda>n. if n \<le> 2 then HttpResponse 500 x else HttpResponse 200 b))
            s l p m)) =
       [retryDelay (config this) * 1, retryDelay (config this) * 2]
     \<and> snd (log this ts
            (via_axios (\<lambda>n. if n \<le> 2 then HttpResponse 500 x else HttpResponse 200 b))
            s l p m) = Inr (Some b)"
  using assms
  by (simp add: log_def Let_def sendLogToAPI_def sendLoop.simps via_axios_def
      is_auth_failure_def backoff_def emit_def numeral_3_eq_3)

text \<open>
  The other example: a collector that always times out, with at least one attempt
  allowed.
\<close>

lemma always_timeout_exhausts:
  assumes "1 \<le> retryAttempts (config this)"
  shows "posts (fst (log this ts (via_axios (\<lambda>n. TimedOut)) s l p m)) =
       replicate (nat (retryAttempts (config this)))
         (post_request (apiClient this) ''/logs''
            \<lparr>stack = s, level = l, package = p, message = m\<rparr>)
     \<and> delays (fst (log this ts (via_axios (\<lambda>n. TimedOut)) s l p m)) =
       map (\<lambda>k. retryDelay (config this) * k) [1..retryAttempts (config this) - 1]
     \<and> snd (log this ts (via_axios (\<lambda>n. TimedOut)) s l p m) = Inr None
     \<and> (enableConsoleLog (config this) \<longrightarrow>
          (\<exists>es. fst (log this ts (via_axios (\<lambda>n. TimedOut)) s l p m) =
             es @ [Console ChError
                     [Text ''Failed to send log to API after all retries:'',
                      Text ''timeout of 10000ms exceeded''],
                   Console ChError
                     [Text ''Original log entry:'',
                      EntryObj \<lparr>stack = s, level = l, package = p, message = m\<rparr>]]))"
proof -
  let ?net = "via_axios (\<lambda>n. TimedOut)"
  let ?e = "\<lparr>stack = s, level = l, package = p, message = m\<rparr>"
  let ?err = "\<lparr>isAxiosError = True, response_status = None,
               err_message = ''timeout of 10000ms exceeded''\<rparr>"
  have net: "\<And>n. ?net n = Inl ?err"
    by (simp add: via_axios_def)
  have err: "\<not> is_auth_failure ?err"
    by (simp add: is_auth_failure_def)
  obtain es where loop: "sendLoop this ?net ?e 1 None = (es, Exited (Some ?err))"
    using sendLoop_always_rejected
      [where net = ?net and err = ?err and this = this and logEntry = ?e and attempt = 1
         and lastError = None, OF net err] assms
    by (cases "sendLoop this ?net ?e 1 None") simp
  then have sent: "sendLogToAPI this ?net ?e =
      (es @ failure_diagnostic this (Some ?err) ?e, Inr None)"
    by (rule sendLogToAPI_Exited)
  from sendLoop_always_rejected
      [where net = ?net and err = ?err and this = this and logEntry = ?e and attempt = 1
         and lastError = None, OF net err] loop
  have p: "posts es = replicate (nat (retryAttempts (config this)))
        (post_request (apiClient this) ''/logs'' ?e)"
    and d: "delays es = map (\<lambda>k. retryDelay (config this) * k)
        [1..retryAttempts (config this) - 1]"
    by simp_all
  have "\<exists>es'. fst (log this ts ?net s l p m) =
      es' @ [Console ChError
               [Text ''Failed to send log to API after all retries:'',
                Text ''timeout of 10000ms exceeded''],
             Console ChError [Text ''Original log entry:'', EntryObj ?e]]"
    if "enableConsoleLog (config this)"
    using that
    by (intro exI [of _ "logToConsole ts ?e @ es"])
      (simp add: log_def Let_def sent failure_diagnostic_def lastError_message_def)
  then show ?thesis
    by (simp add: posts_log delays_log snd_log sent p d)
qed

text \<open>
  C2. The wait of \<open>retryDelay * attempt\<close> sits in the \<^verbatim>\<open>catch\<close> block only. An attempt
  whose await returns a response that is not a success (status 200 with an empty body,
  or another 2xx status) is a failed attempt that the loop retries, but no wait precedes
  the next request. Here the frontend profile (3 attempts, base delay 1000) meets a
  collector whose first answer is such a response and whose second answer is a success:
  the trace is two requests in a row, with no wait of 1000 between them.
\<close>

theorem resolved_failure_retried_without_backoff:
  "sendLogToAPI (createFrontendLogger ''http://collector'' ''tok'')
     (via_axios (\<lambda>n. if n = 1 then HttpResponse 200 (JStr [])
                      else HttpResponse 200 (JObj [(''logID'', JStr ''a1'')])))
     \<lparr>stack = ''frontend'', level = ''info'', package = ''api'', message = ''hello''\<rparr> =
   ([Post \<lparr>http_method = ''POST'', req_baseURL = ''http://collector'', url = ''/logs'',
            req_headers = [''Content-Type'' \<mapsto> ''application/json'',
                           ''Authorization'' \<mapsto> ''Bearer tok''],
            body = \<lparr>stack = ''frontend'', level = ''info'', package = ''api'',
                     message = ''hello''\<rparr>,
            req_timeout = 10000\<rparr>,
     Post \<lparr>http_method = ''POST'', req_baseURL = ''http://collector'', url = ''/logs'',
            req_headers = [''Content-Type'' \<mapsto> ''application/json'',
                           ''Authorization'' \<mapsto> ''Bearer tok''],
            body = \<lparr>stack = ''frontend'', level = ''info'', package = ''api'',
                     message = ''hello''\<rparr>,
            req_timeout = 10000\<rparr>],
    Inr (Some (JObj [(''logID'', JStr ''a1'')])))
   \<and> delays (fst (sendLogToAPI (createFrontendLogger ''http://collector'' ''tok'')
     (via_axios (\<lambda>n. if n = 1 then HttpResponse 204 (JStr [])
                      else HttpResponse 200 (JObj [(''logID'', JStr ''a1'')])))
     \<lparr>stack = ''frontend'', level = ''info'', package = ''api'', message = ''hello''\<rparr>)) = []"
  by (simp add: createFrontendLogger_def constructor_def Let_def sendLogToAPI_def
      sendLoop.simps via_axios_def emit_def post_request_def axios_create_def)

text \<open>
  C5. With a collector whose every answer is a response that is not a success (here
  status 200 with an empty body), every attempt fails and is retried: the frontend
  profile issues its 3 requests, but it waits never instead of twice, and the
  diagnostic it writes at the end carries \<^verbatim>\<open>undefined\<close> in place of an error message,
  since \<open>lastError\<close> is only set in the \<^verbatim>\<open>catch\<close> block.
\<close>

theorem exhausted_by_resolved_failures_without_backoff:
  "sendLogToAPI (createFrontendLogger ''http://collector'' ''tok'')
     (via_axios (\<lambda>n. HttpResponse 200 (JStr [])))
     \<lparr>stack = ''frontend'', level = ''info'', package = ''api'', message = ''hello''\<rparr> =
   ([Post \<lparr>http_method = ''POST'', req_baseURL = ''http://collector'', url = ''/logs'',
            req_headers = [''Content-Type'' \<mapsto> ''application/json'',
                           ''Authorization'' \<mapsto> ''Bearer tok''],
            body = \<lparr>stack = ''frontend'', level = ''info'', package = ''api'',
                     message = ''hello''\<rparr>,
            req_timeout = 10000\<rparr>,
     Post \<lparr>http_method = ''POST'', req_baseURL = ''http://collector'', url = ''/logs'',
            req_headers = [''Content-Type'' \<mapsto> ''application/json'',
                           ''Authorization'' \<mapsto> ''Bearer tok''],
            body = \<lparr>stack = ''frontend'', level = ''info'', package = ''api'',
                     message = ''hello''\<rparr>,
            req_timeout = 10000\<rparr>,
     Post \<lparr>http_method = ''POST'', req_baseURL = ''http://collector'', url = ''/logs'',
            req_headers = [''Content-Type'' \<mapsto> ''application/json'',
                           ''Authorization'' \<mapsto> ''Bearer tok''],
            body = \<lparr>stack = ''frontend'', level = ''info'', package = ''api'',
                     message = ''hello''\<rparr>,
            req_timeout = 10000\<rparr>,
     Console ChError [Text ''Failed to send log to API after all retries:'', Undefined],
     Console ChError
       [Text ''Original log entry:'',
        EntryObj \<lparr>stack = ''frontend'', level = ''info'', package = ''api'',
                  message = ''hello''\<rparr>]],
    Inr None)"
  by (simp add: createFrontendLogger_def constructor_def Let_def sendLogToAPI_def
      sendLoop.simps via_axios_def emit_def post_request_def axios_create_def
      failure_diagnostic_def lastError_message_def)

end
